theory Spec2Isabelle
  imports Main "HOL-Library.Code_Target_Nat" "HOL-Library.Monad_Syntax"
begin

unbundle bit_operations_syntax

section \<open>The image\<close>

text \<open>
  The C code overlays its records on one memory-mapped image of 256 blocks of 4096 bytes;
  \<open>blocks_get_block b\<close> is the address \<open>4096 * b\<close> in the image.  The model keeps the
  bytes of the image as a function from addresses to bytes (\<open>mem\<close>): the inode table, the
  directory entries, the indirect tables and the file data are all read from and written
  to these bytes, at the addresses the code computes, so that records that overlap in the
  image overlap in the model.  The layout is the one of an LP64 target: \<open>int\<close> has 4 bytes,
  \<open>time_t\<close>, \<open>off_t\<close> and \<open>size_t\<close> have 8, integers are little endian and two's
  complement.  \<open>inode_t\<close> then has 48 bytes (\<open>refs\<close> at offset 0, \<open>mode\<close> 4, \<open>size\<close> 8,
  \<open>block\<close> 12, \<open>indirect\<close> 16, four bytes of padding, \<open>atime\<close> 24, \<open>mtime\<close> 32, \<open>uid\<close> 40,
  \<open>gid\<close> 44), and \<open>get_inode i\<close> is the address \<open>4096 + 48 * i\<close>: the 128 records take
  6144 bytes, so the records 85 to 127 lie, wholly or in part, in block 2.

  The two bitmaps of block 0 are kept as two bit arrays (\<open>bbm\<close> and \<open>ibm\<close>), since the
  helpers that read and write them are not among the sources.  A result of type
  \<open>'a option\<close> is \<open>None\<close> where the code has no defined result in the model: where it
  dereferences an address outside the blocks 1 to 255 of the image, or a null pointer,
  where \<open>free_block\<close> is given a number outside the block bitmap, or where a signed
  addition overflows.  \<open>time(NULL)\<close>, \<open>getuid()\<close> and \<open>getgid()\<close> are read from the fields
  \<open>now\<close>, \<open>cur_uid\<close> and \<open>cur_gid\<close> of the state.  C \<open>int\<close> values are mathematical
  integers between loads and stores; a store keeps the low bytes, a load sign-extends.
\<close>

type_synonym memory = "int \<Rightarrow> char"

type_synonym 'a ub = "'a option"

record fs =
  bbm :: "int \<Rightarrow> bool"
  ibm :: "int \<Rightarrow> bool"
  mem :: memory
  now :: int
  cur_uid :: int
  cur_gid :: int

definition BLOCK_SIZE :: int where
  "BLOCK_SIZE = 4096"

definition BLOCK_COUNT :: int where
  "BLOCK_COUNT = 256"

definition INODE_COUNT :: int where
  "INODE_COUNT = 128"

definition DIR_NAME_LENGTH :: int where
  "DIR_NAME_LENGTH = 48"

text \<open>The \<open>n\<close> bytes at address \<open>a\<close> lie in the blocks 1 to 255 of the image.\<close>

definition mapped :: "int \<Rightarrow> int \<Rightarrow> bool" where
  "mapped a n = (4096 \<le> a \<and> a + n \<le> 1048576)"

subsection \<open>Integers in memory and conversions\<close>

definition enc_int :: "int \<Rightarrow> nat \<Rightarrow> char" where
  "enc_int v k = char_of (v div 256 ^ k)"

definition get_int :: "memory \<Rightarrow> int \<Rightarrow> int" where
  "get_int m a =
     (let u = of_char (m a) + 256 * of_char (m (a + 1))
              + 65536 * of_char (m (a + 2)) + 16777216 * of_char (m (a + 3))
      in if u \<ge> 2147483648 then u - 4294967296 else u)"

definition put_int :: "memory \<Rightarrow> int \<Rightarrow> int \<Rightarrow> memory" where
  "put_int m a v = (\<lambda>k. if a \<le> k \<and> k < a + 4 then enc_int v (nat (k - a)) else m k)"

definition get_long :: "memory \<Rightarrow> int \<Rightarrow> int" where
  "get_long m a =
     (let u = of_char (m a) + 256 * of_char (m (a + 1))
              + 65536 * of_char (m (a + 2)) + 16777216 * of_char (m (a + 3))
              + 4294967296 * of_char (m (a + 4)) + 1099511627776 * of_char (m (a + 5))
              + 281474976710656 * of_char (m (a + 6))
              + 72057594037927936 * of_char (m (a + 7))
      in if u \<ge> 9223372036854775808 then u - 18446744073709551616 else u)"

definition put_long :: "memory \<Rightarrow> int \<Rightarrow> int \<Rightarrow> memory" where
  "put_long m a v = (\<lambda>k. if a \<le> k \<and> k < a + 8 then enc_int v (nat (k - a)) else m k)"

text \<open>\<open>memset(p, 0, n)\<close>\<close>

definition memset_zero :: "memory \<Rightarrow> int \<Rightarrow> int \<Rightarrow> memory" where
  "memset_zero m a n = (\<lambda>k. if a \<le> k \<and> k < a + n then CHR 0x00 else m k)"

text \<open>The conversions to \<open>int\<close>, to \<open>off_t\<close> and to \<open>size_t\<close>.\<close>

definition s32 :: "int \<Rightarrow> int" where
  "s32 v = (let u = v mod 4294967296 in if u \<ge> 2147483648 then u - 4294967296 else u)"

definition s64 :: "int \<Rightarrow> int" where
  "s64 v = (let u = v mod 18446744073709551616
            in if u \<ge> 9223372036854775808 then u - 18446744073709551616 else u)"

definition u64 :: "int \<Rightarrow> int" where
  "u64 v = v mod 18446744073709551616"

text \<open>Loads and stores through a pointer computed from a block number.\<close>

definition read_byte :: "fs \<Rightarrow> int \<Rightarrow> char ub" where
  "read_byte s a = (if mapped a 1 then Some (mem s a) else None)"

definition read_int :: "fs \<Rightarrow> int \<Rightarrow> int ub" where
  "read_int s a = (if mapped a 4 then Some (get_int (mem s) a) else None)"

definition write_int :: "fs \<Rightarrow> int \<Rightarrow> int \<Rightarrow> fs ub" where
  "write_int s a v = (if mapped a 4 then Some (s\<lparr>mem := put_int (mem s) a v\<rparr>) else None)"

text \<open>\<open>memset(blocks_get_block(b), 0, BLOCK_SIZE)\<close>\<close>

definition memset_block :: "fs \<Rightarrow> int \<Rightarrow> fs ub" where
  "memset_block s b =
     (if mapped (4096 * b) 4096 then Some (s\<lparr>mem := memset_zero (mem s) (4096 * b) 4096\<rparr>)
      else None)"

subsection \<open>helpers/bitmap and helpers/blocks\<close>

text \<open>
  Modelled from the spec: the helpers \<open>bitmap_get\<close>, \<open>bitmap_put\<close>, \<open>bytes_to_blocks\<close>,
  \<open>alloc_block\<close> and \<open>free_block\<close> are declared in helpers/bitmap.h and
  helpers/blocks.h, which are not among the sources.  The spec gives:
  bit i of a bitmap means that slot i is in use; \<open>bytes_to_blocks n\<close> is
  \<open>ceil (n / 4096)\<close>; \<open>alloc_block\<close> takes the lowest clear bit in \<open>[2, 256)\<close>, sets it,
  zeroes the block and returns its index, or returns \<open>-1\<close> when there is none;
  \<open>free_block i\<close> clears bit i and leaves the block's bytes as they are.  The block
  bitmap has 256 bits: \<open>free_block i\<close> has no result in the model for another \<open>i\<close>.
\<close>

definition bytes_to_blocks :: "int \<Rightarrow> int" where
  "bytes_to_blocks n = (n + 4095) div 4096"

text \<open>The data blocks are the blocks 2 to 255.\<close>

definition data_block :: "int \<Rightarrow> bool" where
  "data_block b = (2 \<le> b \<and> b \<le> 255)"

definition free_block_candidates :: "int list" where
  "free_block_candidates = [2..255]"

definition alloc_block :: "fs \<Rightarrow> fs \<times> int" where
  "alloc_block s =
     (case List.find (\<lambda>i. \<not> bbm s i) free_block_candidates of
        None \<Rightarrow> (s, -1)
      | Some i \<Rightarrow> (s\<lparr>bbm := (bbm s)(i := True),
                      mem := memset_zero (mem s) (4096 * i) 4096\<rparr>, i))"

definition free_block :: "fs \<Rightarrow> int \<Rightarrow> fs ub" where
  "free_block s i =
     (if 0 \<le> i \<and> i < 256 then Some (s\<lparr>bbm := (bbm s)(i := False)\<rparr>) else None)"

section \<open>inode.c\<close>

text \<open>
  A pointer to an inode is the inode's index; \<open>get_inode\<close> gives \<open>None\<close> for \<open>NULL\<close>.
  The fields of the record are read from the image at the address of the record.
\<close>

definition inode_addr :: "int \<Rightarrow> int" where
  "inode_addr i = 4096 + 48 * i"

definition get_inode :: "int \<Rightarrow> int option" where
  "get_inode inum = (if inum < 0 \<or> inum \<ge> INODE_COUNT then None else Some inum)"

definition inode_refs :: "fs \<Rightarrow> int \<Rightarrow> int" where
  "inode_refs s i = get_int (mem s) (inode_addr i)"

definition inode_mode :: "fs \<Rightarrow> int \<Rightarrow> int" where
  "inode_mode s i = get_int (mem s) (inode_addr i + 4)"

definition inode_size :: "fs \<Rightarrow> int \<Rightarrow> int" where
  "inode_size s i = get_int (mem s) (inode_addr i + 8)"

definition inode_block :: "fs \<Rightarrow> int \<Rightarrow> int" where
  "inode_block s i = get_int (mem s) (inode_addr i + 12)"

definition inode_indirect :: "fs \<Rightarrow> int \<Rightarrow> int" where
  "inode_indirect s i = get_int (mem s) (inode_addr i + 16)"

definition inode_atime :: "fs \<Rightarrow> int \<Rightarrow> int" where
  "inode_atime s i = get_long (mem s) (inode_addr i + 24)"

definition inode_mtime :: "fs \<Rightarrow> int \<Rightarrow> int" where
  "inode_mtime s i = get_long (mem s) (inode_addr i + 32)"

definition inode_uid :: "fs \<Rightarrow> int \<Rightarrow> int" where
  "inode_uid s i = get_int (mem s) (inode_addr i + 40)"

definition inode_gid :: "fs \<Rightarrow> int \<Rightarrow> int" where
  "inode_gid s i = get_int (mem s) (inode_addr i + 44)"

definition set_refs :: "fs \<Rightarrow> int \<Rightarrow> int \<Rightarrow> fs" where
  "set_refs s i v = s\<lparr>mem := put_int (mem s) (inode_addr i) v\<rparr>"

definition set_mode :: "fs \<Rightarrow> int \<Rightarrow> int \<Rightarrow> fs" where
  "set_mode s i v = s\<lparr>mem := put_int (mem s) (inode_addr i + 4) v\<rparr>"

definition set_size :: "fs \<Rightarrow> int \<Rightarrow> int \<Rightarrow> fs" where
  "set_size s i v = s\<lparr>mem := put_int (mem s) (inode_addr i + 8) v\<rparr>"

definition set_block :: "fs \<Rightarrow> int \<Rightarrow> int \<Rightarrow> fs" where
  "set_block s i v = s\<lparr>mem := put_int (mem s) (inode_addr i + 12) v\<rparr>"

definition set_indirect :: "fs \<Rightarrow> int \<Rightarrow> int \<Rightarrow> fs" where
  "set_indirect s i v = s\<lparr>mem := put_int (mem s) (inode_addr i + 16) v\<rparr>"

definition set_atime :: "fs \<Rightarrow> int \<Rightarrow> int \<Rightarrow> fs" where
  "set_atime s i v = s\<lparr>mem := put_long (mem s) (inode_addr i + 24) v\<rparr>"

definition set_mtime :: "fs \<Rightarrow> int \<Rightarrow> int \<Rightarrow> fs" where
  "set_mtime s i v = s\<lparr>mem := put_long (mem s) (inode_addr i + 32) v\<rparr>"

definition set_uid :: "fs \<Rightarrow> int \<Rightarrow> int \<Rightarrow> fs" where
  "set_uid s i v = s\<lparr>mem := put_int (mem s) (inode_addr i + 40) v\<rparr>"

definition set_gid :: "fs \<Rightarrow> int \<Rightarrow> int \<Rightarrow> fs" where
  "set_gid s i v = s\<lparr>mem := put_int (mem s) (inode_addr i + 44) v\<rparr>"

definition inode_candidates :: "int list" where
  "inode_candidates = [0..127]"

text \<open>
  \<open>alloc_inode\<close>: \<open>memset(node, 0, sizeof(inode_t))\<close> and the assignments, in the order of
  the source.
\<close>

definition alloc_inode :: "fs \<Rightarrow> fs \<times> int" where
  "alloc_inode s =
     (case List.find (\<lambda>ii. \<not> ibm s ii) inode_candidates of
        None \<Rightarrow> (s, -1)
      | Some ii \<Rightarrow>
          let s1 = s\<lparr>ibm := (ibm s)(ii := True),
                     mem := memset_zero (mem s) (inode_addr ii) 48\<rparr>;
              s2 = set_indirect (set_block (set_size (set_mode (set_refs s1 ii 1) ii 0) ii 0)
                                   ii 0) ii 0;
              s3 = set_gid (set_uid s2 ii (cur_uid s2)) ii (cur_gid s2)
          in (set_mtime (set_atime s3 ii (now s3)) ii (now s3), ii))"

text \<open>
  \<open>free_inode\<close>: the loop over the indirect table runs for
  \<open>ii < num_indirect && ii < BLOCK_SIZE / sizeof(int)\<close>, over the table at the address
  \<open>tbl\<close> computed before the loop.
\<close>

fun free_indirect_entries :: "fs \<Rightarrow> int \<Rightarrow> int list \<Rightarrow> fs ub" where
  "free_indirect_entries s tbl [] = Some s"
| "free_indirect_entries s tbl (ii # rest) =
     (case read_int s (tbl + 4 * ii) of
        None \<Rightarrow> None
      | Some v \<Rightarrow>
          (case (if v \<noteq> 0 then free_block s v else Some s) of
             None \<Rightarrow> None
           | Some s1 \<Rightarrow> free_indirect_entries s1 tbl rest))"

definition free_inode :: "fs \<Rightarrow> int \<Rightarrow> fs ub" where
  "free_inode s inum =
     (if inum < 0 \<or> inum \<ge> INODE_COUNT then Some s
      else do {
        s1 \<leftarrow> (if inode_block s inum \<noteq> 0 then free_block s (inode_block s inum) else Some s);
        s2 \<leftarrow> (if inode_indirect s1 inum \<noteq> 0 then do {
                  s3 \<leftarrow> free_indirect_entries s1 (4096 * inode_indirect s1 inum)
                          [0 .. min (bytes_to_blocks (inode_size s1 inum) - 1) 1024 - 1];
                  free_block s3 (inode_indirect s3 inum) }
                else Some s1);
        Some (s2\<lparr>mem := memset_zero (mem s2) (inode_addr inum) 48,
                 ibm := (ibm s2)(inum := False)\<rparr>) })"

text \<open>
  \<open>inode_get_bnum\<close>.  The callers pass a pointer into the inode table, so the
  \<open>node == NULL\<close> test is the \<open>None\<close> case of \<open>get_inode\<close> at the caller.
\<close>

definition inode_get_bnum :: "fs \<Rightarrow> int \<Rightarrow> int \<Rightarrow> int ub" where
  "inode_get_bnum s inum file_bnum =
     (if file_bnum < 0 then Some (-1)
      else if file_bnum = 0 then Some (inode_block s inum)
      else if inode_indirect s inum = 0 then Some (-1)
      else if file_bnum - 1 \<ge> BLOCK_SIZE div 4 then Some (-1)
      else read_int s (4096 * inode_indirect s inum + 4 * (file_bnum - 1)))"

text \<open>
  \<open>grow_inode\<close>.  \<open>grow_step\<close> is the body of the loop
  \<open>for (ii = current_blocks; ii < target_blocks; ++ii)\<close> for one \<open>ii\<close>; its second
  component is \<open>False\<close> where the body returns \<open>-1\<close> from the function.  Every
  \<open>node->indirect\<close> of the source is a load from the image at that point.  On the failure
  to allocate the indirect block, \<open>node->indirect\<close> has already been assigned the \<open>-1\<close>.
\<close>

definition grow_step :: "fs \<Rightarrow> int \<Rightarrow> int \<Rightarrow> (fs \<times> bool) ub" where
  "grow_step s inum ii =
     (case alloc_block s of (s1, new_block) \<Rightarrow>
        if new_block < 0 then Some (s1, False)
        else do {
          s2 \<leftarrow> memset_block s1 new_block;
          if ii = 0 then Some (set_block s2 inum new_block, True)
          else if inode_indirect s2 inum = 0 then
            (case alloc_block s2 of (s3, ib) \<Rightarrow>
               let s4 = set_indirect s3 inum ib in
               if inode_indirect s4 inum < 0 then do {
                 s5 \<leftarrow> free_block s4 new_block;
                 Some (s5, False) }
               else do {
                 s5 \<leftarrow> memset_block s4 (inode_indirect s4 inum);
                 s6 \<leftarrow> write_int s5 (4096 * inode_indirect s5 inum + 4 * (ii - 1)) new_block;
                 Some (s6, True) })
          else do {
            s6 \<leftarrow> write_int s2 (4096 * inode_indirect s2 inum + 4 * (ii - 1)) new_block;
            Some (s6, True) } })"

function grow_loop :: "fs \<Rightarrow> int \<Rightarrow> int \<Rightarrow> int \<Rightarrow> (fs \<times> int) ub" where
  "grow_loop s inum ii target =
     (if ii < target then
        (case grow_step s inum ii of
           None \<Rightarrow> None
         | Some r \<Rightarrow> if snd r then grow_loop (fst r) inum (ii + 1) target
                     else Some (fst r, -1))
      else Some (s, 0))"
  by pat_completeness auto
termination
  by (relation "measure (\<lambda>(s, inum, ii, target). nat (target - ii))") auto

definition grow_inode :: "fs \<Rightarrow> int \<Rightarrow> int \<Rightarrow> (fs \<times> int) ub" where
  "grow_inode s inum sz =
     (let current_blocks = (if inode_size s inum = 0 then 0
                            else bytes_to_blocks (inode_size s inum));
          target_blocks = (if sz = 0 then 0 else bytes_to_blocks sz)
      in case grow_loop s inum current_blocks target_blocks of
           None \<Rightarrow> None
         | Some r \<Rightarrow>
             if snd r < 0 then Some (fst r, -1)
             else Some (set_mtime (set_size (fst r) inum sz) inum (now (fst r)), 0))"

text \<open>
  \<open>shrink_inode\<close>.  \<open>shrink_step\<close> is the body of the loop
  \<open>for (ii = current_blocks - 1; ii >= target_blocks; --ii)\<close> for one \<open>ii\<close>.
\<close>

definition shrink_step :: "fs \<Rightarrow> int \<Rightarrow> int \<Rightarrow> fs ub" where
  "shrink_step s inum ii =
     (if ii = 0 then
        (if inode_block s inum \<noteq> 0 then do {
           s1 \<leftarrow> free_block s (inode_block s inum);
           Some (set_block s1 inum 0) }
         else Some s)
      else if inode_indirect s inum \<noteq> 0 then do {
        v \<leftarrow> read_int s (4096 * inode_indirect s inum + 4 * (ii - 1));
        if v \<noteq> 0 then do {
          s1 \<leftarrow> free_block s v;
          write_int s1 (4096 * inode_indirect s inum + 4 * (ii - 1)) 0 }
        else Some s }
      else Some s)"

function shrink_loop :: "fs \<Rightarrow> int \<Rightarrow> int \<Rightarrow> int \<Rightarrow> fs ub" where
  "shrink_loop s inum ii target =
     (if ii \<ge> target then
        (case shrink_step s inum ii of
           None \<Rightarrow> None
         | Some s1 \<Rightarrow> shrink_loop s1 inum (ii - 1) target)
      else Some s)"
  by pat_completeness auto
termination
  by (relation "measure (\<lambda>(s, inum, ii, target). nat (ii - target + 1))") auto

definition shrink_inode :: "fs \<Rightarrow> int \<Rightarrow> int \<Rightarrow> (fs \<times> int) ub" where
  "shrink_inode s inum sz =
     (let current_blocks = (if inode_size s inum = 0 then 0
                            else bytes_to_blocks (inode_size s inum));
          target_blocks = (if sz = 0 then 0 else bytes_to_blocks sz)
      in do {
        s1 \<leftarrow> shrink_loop s inum (current_blocks - 1) target_blocks;
        s2 \<leftarrow> (if target_blocks \<le> 1 \<and> inode_indirect s1 inum \<noteq> 0 then do {
                  s3 \<leftarrow> free_block s1 (inode_indirect s1 inum);
                  Some (set_indirect s3 inum 0) }
                else Some s1);
        Some (set_mtime (set_size s2 inum sz) inum (now s2), 0) })"

text \<open>\<open>inode_init\<close> marks block 1 as used.\<close>

definition inode_init :: "fs \<Rightarrow> fs" where
  "inode_init s = s\<lparr>bbm := (bbm s)(1 := True)\<rparr>"

section \<open>directory.c\<close>

text \<open>
  A C string is given as a list of bytes; the string it denotes ends before the first zero
  byte of the list (\<open>c_str\<close>), and \<open>strlen\<close> is the length of that.

  A directory entry is 64 bytes: the name in the first 48, the inode number in the next
  four, twelve reserved bytes.  \<open>directory_get_entry\<close> returns a pointer to an entry: here
  the block number with the entry's index in that block, \<open>None\<close> for \<open>NULL\<close>;
  \<open>entry_addr\<close> is the address the pointer stands for.
\<close>

definition c_str :: "string \<Rightarrow> string" where
  "c_str name = takeWhile (\<lambda>c. c \<noteq> CHR 0x00) name"

definition strlen :: "string \<Rightarrow> int" where
  "strlen name = int (length (c_str name))"

type_synonym entry_ptr = "int \<times> int"

definition entry_addr :: "entry_ptr \<Rightarrow> int" where
  "entry_addr e = 4096 * fst e + 64 * snd e"

definition directory_get_entry :: "fs \<Rightarrow> int \<Rightarrow> int \<Rightarrow> entry_ptr option ub" where
  "directory_get_entry s di index =
     (if index < 0 then Some None
      else
        let entries_per_block = BLOCK_SIZE div 64;
            block_index = index div entries_per_block;
            entry_offset = index mod entries_per_block
        in case inode_get_bnum s di block_index of
             None \<Rightarrow> None
           | Some bnum \<Rightarrow> if bnum \<le> 0 then Some None else Some (Some (bnum, entry_offset)))"

definition directory_max_entries :: "fs \<Rightarrow> int \<Rightarrow> int" where
  "directory_max_entries s di =
     (if inode_size s di = 0 then 0 else bytes_to_blocks (inode_size s di)) * (BLOCK_SIZE div 64)"

text \<open>\<open>entry->inum\<close> and \<open>entry->name[0]\<close>\<close>

definition entry_inum :: "fs \<Rightarrow> entry_ptr \<Rightarrow> int ub" where
  "entry_inum s e = read_int s (entry_addr e + DIR_NAME_LENGTH)"

definition entry_name0 :: "fs \<Rightarrow> entry_ptr \<Rightarrow> char ub" where
  "entry_name0 s e = read_byte s (entry_addr e)"

text \<open>
  \<open>strcmp(p, name) == 0\<close>, for the bytes at the address \<open>p\<close>: \<open>strcmp\<close> reads on while the
  bytes agree and are not zero.
\<close>

fun c_streq :: "fs \<Rightarrow> int \<Rightarrow> string \<Rightarrow> bool ub" where
  "c_streq s a [] = (case read_byte s a of None \<Rightarrow> None | Some b \<Rightarrow> Some (b = CHR 0x00))"
| "c_streq s a (c # cs) =
     (case read_byte s a of
        None \<Rightarrow> None
      | Some b \<Rightarrow>
          if c = CHR 0x00 then Some (b = CHR 0x00)
          else if b = c then c_streq s (a + 1) cs
          else Some False)"

text \<open>
  \<open>strncpy(entry->name, name, DIR_NAME_LENGTH - 1); entry->name[DIR_NAME_LENGTH - 1] = 0;
  entry->inum = inum\<close>: \<open>strncpy\<close> pads with zero bytes up to its length argument.
\<close>

definition write_entry :: "fs \<Rightarrow> entry_ptr \<Rightarrow> string \<Rightarrow> int \<Rightarrow> fs ub" where
  "write_entry s e name inum =
     (let base = entry_addr e;
          named = (\<lambda>k. if base \<le> k \<and> k < base + DIR_NAME_LENGTH
                        then (if k - base < strlen name \<and> k - base < DIR_NAME_LENGTH - 1
                              then name ! nat (k - base) else CHR 0x00)
                        else mem s k)
      in if mapped base 52 then Some (s\<lparr>mem := put_int named (base + DIR_NAME_LENGTH) inum\<rparr>)
         else None)"

text \<open>\<open>memset(entry, 0, sizeof(dirent_t))\<close>\<close>

definition clear_entry :: "fs \<Rightarrow> entry_ptr \<Rightarrow> fs ub" where
  "clear_entry s e =
     (if mapped (entry_addr e) 64 then Some (s\<lparr>mem := memset_zero (mem s) (entry_addr e) 64\<rparr>)
      else None)"

text \<open>
  The scan of \<open>directory_lookup\<close> and \<open>directory_delete\<close>: the first entry in
  \<open>[0, max_entries)\<close> that passes the test
  \<open>entry->inum != 0 && strcmp(entry->name, name) == 0\<close>, stopping at the first \<open>NULL\<close>
  entry.
\<close>

definition entry_matches :: "fs \<Rightarrow> entry_ptr \<Rightarrow> string \<Rightarrow> bool ub" where
  "entry_matches s e name =
     (case entry_inum s e of
        None \<Rightarrow> None
      | Some i \<Rightarrow> if i \<noteq> 0 then c_streq s (entry_addr e) name else Some False)"

fun find_entry :: "fs \<Rightarrow> int \<Rightarrow> string \<Rightarrow> int list \<Rightarrow> entry_ptr option ub" where
  "find_entry s di name [] = Some None"
| "find_entry s di name (ii # rest) =
     (case directory_get_entry s di ii of
        None \<Rightarrow> None
      | Some None \<Rightarrow> Some None
      | Some (Some e) \<Rightarrow>
          (case entry_matches s e name of
             None \<Rightarrow> None
           | Some m \<Rightarrow> if m then Some (Some e) else find_entry s di name rest))"

definition directory_lookup :: "fs \<Rightarrow> int \<Rightarrow> string \<Rightarrow> int ub" where
  "directory_lookup s di name =
     (if strlen name = 0 then Some (-1)
      else case find_entry s di name [0 .. directory_max_entries s di - 1] of
             None \<Rightarrow> None
           | Some None \<Rightarrow> Some (-1)
           | Some (Some e) \<Rightarrow> entry_inum s e)"

text \<open>
  The scan of \<open>directory_put\<close> for an empty slot:
  \<open>entry->inum == 0 || entry->name[0] == '\0'\<close>.
\<close>

definition entry_empty :: "fs \<Rightarrow> entry_ptr \<Rightarrow> bool ub" where
  "entry_empty s e =
     (case entry_inum s e of
        None \<Rightarrow> None
      | Some i \<Rightarrow>
          if i = 0 then Some True
          else (case entry_name0 s e of None \<Rightarrow> None | Some c \<Rightarrow> Some (c = CHR 0x00)))"

fun find_empty :: "fs \<Rightarrow> int \<Rightarrow> int list \<Rightarrow> entry_ptr option ub" where
  "find_empty s di [] = Some None"
| "find_empty s di (ii # rest) =
     (case directory_get_entry s di ii of
        None \<Rightarrow> None
      | Some None \<Rightarrow> Some None
      | Some (Some e) \<Rightarrow>
          (case entry_empty s e of
             None \<Rightarrow> None
           | Some m \<Rightarrow> if m then Some (Some e) else find_empty s di rest))"

definition directory_put :: "fs \<Rightarrow> int \<Rightarrow> string \<Rightarrow> int \<Rightarrow> (fs \<times> int) ub" where
  "directory_put s di name inum =
     (if strlen name = 0 then Some (s, -1)
      else if strlen name \<ge> DIR_NAME_LENGTH then Some (s, -1)
      else
        let max_entries = directory_max_entries s di in
        case find_empty s di [0 .. max_entries - 1] of
          None \<Rightarrow> None
        | Some (Some e) \<Rightarrow> do { s1 \<leftarrow> write_entry s e name inum; Some (s1, 0) }
        | Some None \<Rightarrow>
            (case grow_inode s di (inode_size s di + BLOCK_SIZE) of
               None \<Rightarrow> None
             | Some r \<Rightarrow>
                 if snd r < 0 then Some (fst r, -1)
                 else (case directory_get_entry (fst r) di max_entries of
                         None \<Rightarrow> None
                       | Some None \<Rightarrow> Some (fst r, -1)
                       | Some (Some e) \<Rightarrow> do {
                           s1 \<leftarrow> write_entry (fst r) e name inum;
                           Some (s1, 0) })))"

definition directory_delete :: "fs \<Rightarrow> int \<Rightarrow> string \<Rightarrow> (fs \<times> int) ub" where
  "directory_delete s di name =
     (if strlen name = 0 then Some (s, -1)
      else case find_entry s di name [0 .. directory_max_entries s di - 1] of
             None \<Rightarrow> None
           | Some None \<Rightarrow> Some (s, -1)
           | Some (Some e) \<Rightarrow> do { s1 \<leftarrow> clear_entry s e; Some (s1, 0) })"

text \<open>
  \<open>get_basename\<close>: what follows the last \<open>/\<close> of the string, or the whole string when
  there is none.
\<close>

definition get_basename :: "string \<Rightarrow> string" where
  "get_basename path = rev (takeWhile (\<lambda>c. c \<noteq> CHR ''/'') (rev (c_str path)))"

text \<open>
  Modelled from the spec: \<open>slist_explode\<close> of helpers/slist.h, not among the sources,
  splits a string at every occurrence of the delimiter; \<open>tree_lookup\<close> itself skips the
  empty components.
\<close>

fun slist_explode :: "string \<Rightarrow> char \<Rightarrow> string list" where
  "slist_explode [] d = [[]]"
| "slist_explode (c # cs) d =
     (if c = d then [] # slist_explode cs d
      else case slist_explode cs d of
             [] \<Rightarrow> [[c]]
           | x # xs \<Rightarrow> (c # x) # xs)"

fun tree_walk :: "fs \<Rightarrow> int \<Rightarrow> string list \<Rightarrow> int ub" where
  "tree_walk s current_inum [] = Some current_inum"
| "tree_walk s current_inum (c # rest) =
     (if length c = 0 then tree_walk s current_inum rest
      else case get_inode current_inum of
             None \<Rightarrow> Some (-1)
           | Some cur \<Rightarrow>
               if inode_mode s cur AND 16384 = 0 then Some (-1)
               else
                 (case directory_lookup s cur c of
                    None \<Rightarrow> None
                  | Some next_inum \<Rightarrow>
                      if next_inum < 0 then Some (-1) else tree_walk s next_inum rest))"

definition tree_lookup :: "fs \<Rightarrow> string \<Rightarrow> int ub" where
  "tree_lookup s path =
     (case c_str path of
        [] \<Rightarrow> Some (-1)
      | c # tail \<Rightarrow>
          if c \<noteq> CHR ''/'' then Some (-1)
          else if tail = [] then Some 0
          else tree_walk s 0 (slist_explode tail (CHR ''/'')))"

definition tree_lookup_parent :: "fs \<Rightarrow> string \<Rightarrow> int ub" where
  "tree_lookup_parent s path =
     (case c_str path of
        [] \<Rightarrow> Some (-1)
      | c # tail \<Rightarrow>
          if c \<noteq> CHR ''/'' then Some (-1)
          else if tail = [] then Some 0
          else
            let parent_len = length (c_str path) - 1 - length (get_basename path) in
            if parent_len = 0 then Some 0
            else tree_lookup s (take parent_len (c_str path)))"

text \<open>
  \<open>directory_list\<close>.  Modelled from the spec: \<open>slist_cons\<close> of helpers/slist.h, not among
  the sources, puts a copy of the string at the front of the list, so the list is in
  reverse directory order; \<open>NULL\<close> is the empty list.  \<open>read_cstr\<close> is the string at an
  address: the bytes up to the first zero byte.
\<close>

function read_cstr :: "fs \<Rightarrow> int \<Rightarrow> string ub" where
  "read_cstr s a =
     (if mapped a 1 then
        (if mem s a = CHR 0x00 then Some []
         else case read_cstr s (a + 1) of None \<Rightarrow> None | Some cs \<Rightarrow> Some (mem s a # cs))
      else None)"
  by pat_completeness auto
termination
  by (relation "measure (\<lambda>(s, a). nat (1048576 - a))") (auto simp: mapped_def)

fun list_entries :: "fs \<Rightarrow> int \<Rightarrow> int list \<Rightarrow> string list \<Rightarrow> string list ub" where
  "list_entries s di [] result = Some result"
| "list_entries s di (ii # rest) result =
     (case directory_get_entry s di ii of
        None \<Rightarrow> None
      | Some None \<Rightarrow> Some result
      | Some (Some e) \<Rightarrow>
          (case entry_empty s e of
             None \<Rightarrow> None
           | Some m \<Rightarrow>
               if m then list_entries s di rest result
               else (case read_cstr s (entry_addr e) of
                       None \<Rightarrow> None
                     | Some nm \<Rightarrow> list_entries s di rest (nm # result))))"

definition directory_list :: "fs \<Rightarrow> string \<Rightarrow> string list ub" where
  "directory_list s path =
     (case tree_lookup s path of
        None \<Rightarrow> None
      | Some dir_inum \<Rightarrow>
          if dir_inum < 0 then Some []
          else case get_inode dir_inum of
                 None \<Rightarrow> Some []
               | Some d \<Rightarrow>
                   if inode_mode s d AND 16384 = 0 then Some []
                   else list_entries s d [0 .. directory_max_entries s d - 1] [])"

text \<open>\<open>directory_init\<close>; the result of \<open>grow_inode\<close> is not looked at.\<close>

definition directory_init :: "fs \<Rightarrow> fs ub" where
  "directory_init s =
     (if ibm s 0 then Some s
      else
        let s1 = fst (alloc_inode s);
            s2 = set_size (set_mode s1 0 16877) 0 0
        in map_option fst (grow_inode s2 0 BLOCK_SIZE))"

section \<open>storage.c\<close>

text \<open>
  A buffer of the caller is a function from indices to bytes, with its length passed
  separately as in C.  The parameters of type \<open>size_t\<close> and \<open>off_t\<close> are integers that the
  functions first convert to their types (\<open>u64\<close>, \<open>s64\<close>); the mixed arithmetic of the
  source is written out with the conversions C applies: \<open>offset + bytes_read\<close> is
  unsigned, \<open>(off_t)size\<close> and the \<open>int\<close> arguments and results are signed.  The error
  codes are \<open>ENOENT = 2\<close>, \<open>EEXIST = 17\<close>, \<open>ENOSPC = 28\<close> and \<open>ENOTEMPTY = 39\<close>.
\<close>

type_synonym buffer = "int \<Rightarrow> char"

definition ENOENT :: int where "ENOENT = 2"
definition EEXIST :: int where "EEXIST = 17"
definition ENOSPC :: int where "ENOSPC = 28"
definition ENOTEMPTY :: int where "ENOTEMPTY = 39"

text \<open>
  Modelled from the spec: \<open>blocks_init\<close> of helpers/blocks.h, not among the sources,
  maps the backing file; a new file is all zero bytes, and bit 0 of the block bitmap is
  reserved at initialisation.
\<close>

definition blocks_init :: fs where
  "blocks_init = \<lparr>bbm = (\<lambda>i. i = 0), ibm = (\<lambda>_. False), mem = (\<lambda>_. CHR 0x00),
                  now = 1000, cur_uid = 0, cur_gid = 0\<rparr>"

definition storage_init :: "fs \<Rightarrow> fs ub" where
  "storage_init s = directory_init (inode_init s)"

text \<open>The \<open>while (bytes_read < size)\<close> loop of \<open>storage_read\<close>.\<close>

function read_loop :: "fs \<Rightarrow> int \<Rightarrow> int \<Rightarrow> int \<Rightarrow> int \<Rightarrow> buffer \<Rightarrow> (int \<times> buffer) ub" where
  "read_loop s n offset sz bytes_read buf =
     (if bytes_read < sz then
        let file_block = s32 (u64 (offset + bytes_read) div 4096);
            block_offset = u64 (offset + bytes_read) mod 4096
        in case inode_get_bnum s n file_block of
             None \<Rightarrow> None
           | Some bnum \<Rightarrow>
               if bnum \<le> 0 then Some (bytes_read, buf)
               else
                 let to_read = min (4096 - block_offset) (sz - bytes_read);
                     src = 4096 * bnum + block_offset
                 in if mapped src to_read then
                      read_loop s n offset sz (bytes_read + to_read)
                        (\<lambda>k. if bytes_read \<le> k \<and> k < bytes_read + to_read
                              then mem s (src + (k - bytes_read)) else buf k)
                    else None
      else Some (bytes_read, buf))"
  by pat_completeness auto
termination
proof (relation "measure (\<lambda>(s, n, offset, sz, bytes_read, buf). nat (sz - bytes_read))")
  fix s :: fs and n offset sz bytes_read :: int and buf :: buffer
    and x xa xb xc xd :: int
  assume "bytes_read < sz" and "xa = u64 (offset + bytes_read) mod 4096"
    and "xc = min (4096 - xa) (sz - bytes_read)"
  moreover have "u64 (offset + bytes_read) mod 4096 < 4096" by simp
  ultimately have "0 < xc" by simp
  with \<open>bytes_read < sz\<close>
  show "((s, n, offset, sz, bytes_read + xc,
          \<lambda>k. if bytes_read \<le> k \<and> k < bytes_read + xc then mem s (xd + (k - bytes_read)) else buf k),
         s, n, offset, sz, bytes_read, buf)
        \<in> measure (\<lambda>(s, n, offset, sz, bytes_read, buf). nat (sz - bytes_read))"
    by simp
qed simp

definition storage_read :: "fs \<Rightarrow> string \<Rightarrow> buffer \<Rightarrow> int \<Rightarrow> int \<Rightarrow> (fs \<times> int \<times> buffer) ub" where
  "storage_read s path buf size_arg offset_arg =
     (case tree_lookup s path of
        None \<Rightarrow> None
      | Some inum \<Rightarrow>
          if inum < 0 then Some (s, - ENOENT, buf)
          else case get_inode inum of
                 None \<Rightarrow> Some (s, - ENOENT, buf)
               | Some n \<Rightarrow>
                   let sz = u64 size_arg; offset = s64 offset_arg in
                   if offset \<ge> inode_size s n then Some (s, 0, buf)
                   else if s64 (offset + s64 sz) \<noteq> offset + s64 sz then None
                   else
                     let sz1 = (if offset + s64 sz > inode_size s n
                                then u64 (inode_size s n - offset) else sz)
                     in case read_loop s n offset sz1 0 buf of
                          None \<Rightarrow> None
                        | Some r \<Rightarrow> Some (set_atime s n (now s), s32 (fst r), snd r))"

text \<open>The \<open>while (bytes_written < size)\<close> loop of \<open>storage_write\<close>.\<close>

function write_loop :: "fs \<Rightarrow> int \<Rightarrow> buffer \<Rightarrow> int \<Rightarrow> int \<Rightarrow> int \<Rightarrow> (fs \<times> int) ub" where
  "write_loop s n buf offset sz bytes_written =
     (if bytes_written < sz then
        let file_block = s32 (u64 (offset + bytes_written) div 4096);
            block_offset = u64 (offset + bytes_written) mod 4096
        in case inode_get_bnum s n file_block of
             None \<Rightarrow> None
           | Some bnum \<Rightarrow>
               if bnum \<le> 0 then Some (s, bytes_written)
               else
                 let to_write = min (4096 - block_offset) (sz - bytes_written);
                     dst = 4096 * bnum + block_offset
                 in if mapped dst to_write then
                      write_loop
                        (s\<lparr>mem := (\<lambda>k. if dst \<le> k \<and> k < dst + to_write
                                       then buf (bytes_written + (k - dst)) else mem s k)\<rparr>)
                        n buf offset sz (bytes_written + to_write)
                    else None
      else Some (s, bytes_written))"
  by pat_completeness auto
termination
proof (relation "measure (\<lambda>(s, n, buf, offset, sz, bytes_written). nat (sz - bytes_written))")
  fix s :: fs and n :: int and buf :: buffer and offset sz bytes_written :: int
    and x xa xb xc xd :: int
  assume "bytes_written < sz" and "xa = u64 (offset + bytes_written) mod 4096"
    and "xc = min (4096 - xa) (sz - bytes_written)"
  moreover have "u64 (offset + bytes_written) mod 4096 < 4096" by simp
  ultimately have "0 < xc" by simp
  with \<open>bytes_written < sz\<close>
  show "((s\<lparr>mem := (\<lambda>k. if xd \<le> k \<and> k < xd + xc then buf (bytes_written + (k - xd)) else mem s k)\<rparr>,
          n, buf, offset, sz, bytes_written + xc),
         s, n, buf, offset, sz, bytes_written)
        \<in> measure (\<lambda>(s, n, buf, offset, sz, bytes_written). nat (sz - bytes_written))"
    by simp
qed simp

definition storage_write :: "fs \<Rightarrow> string \<Rightarrow> buffer \<Rightarrow> int \<Rightarrow> int \<Rightarrow> (fs \<times> int) ub" where
  "storage_write s path buf size_arg offset_arg =
     (case tree_lookup s path of
        None \<Rightarrow> None
      | Some inum \<Rightarrow>
          if inum < 0 then Some (s, - ENOENT)
          else case get_inode inum of
                 None \<Rightarrow> Some (s, - ENOENT)
               | Some n \<Rightarrow>
                   let sz = u64 size_arg; offset = s64 offset_arg;
                       end_pos = s64 (offset + sz)
                   in case (if end_pos > inode_size s n then grow_inode s n (s32 end_pos)
                            else Some (s, 0)) of
                        None \<Rightarrow> None
                      | Some g \<Rightarrow>
                          if snd g < 0 then Some (fst g, - ENOSPC)
                          else (case write_loop (fst g) n buf offset sz 0 of
                                  None \<Rightarrow> None
                                | Some w \<Rightarrow>
                                    Some (set_mtime (fst w) n (now (fst w)), s32 (snd w))))"

definition storage_truncate :: "fs \<Rightarrow> string \<Rightarrow> int \<Rightarrow> (fs \<times> int) ub" where
  "storage_truncate s path size_arg =
     (case tree_lookup s path of
        None \<Rightarrow> None
      | Some inum \<Rightarrow>
          if inum < 0 then Some (s, - ENOENT)
          else case get_inode inum of
                 None \<Rightarrow> Some (s, - ENOENT)
               | Some n \<Rightarrow>
                   let sz = s64 size_arg in
                   if sz > inode_size s n then grow_inode s n (s32 sz)
                   else if sz < inode_size s n then shrink_inode s n (s32 sz)
                   else Some (s, 0))"

text \<open>\<open>storage_mknod\<close>; the result of \<open>grow_inode\<close> for a directory is not looked at.\<close>

definition storage_mknod :: "fs \<Rightarrow> string \<Rightarrow> int \<Rightarrow> (fs \<times> int) ub" where
  "storage_mknod s path md =
     (case tree_lookup s path of
        None \<Rightarrow> None
      | Some existing \<Rightarrow>
          if existing \<ge> 0 then Some (s, - EEXIST)
          else case tree_lookup_parent s path of
                 None \<Rightarrow> None
               | Some parent_inum \<Rightarrow>
                   if parent_inum < 0 then Some (s, - ENOENT)
                   else case get_inode parent_inum of
                          None \<Rightarrow> Some (s, - ENOENT)
                        | Some parent \<Rightarrow>
                            (case alloc_inode s of (s1, new_inum) \<Rightarrow>
                               if new_inum < 0 then Some (s1, - ENOSPC)
                               else do {
                                 let s2 = set_size (set_mode s1 new_inum md) new_inum 0;
                                 s3 \<leftarrow> (if md AND 16384 \<noteq> 0
                                        then map_option fst (grow_inode s2 new_inum BLOCK_SIZE)
                                        else Some s2);
                                 r \<leftarrow> directory_put s3 parent (get_basename path) new_inum;
                                 if snd r < 0 then do {
                                   s4 \<leftarrow> free_inode (fst r) new_inum;
                                   Some (s4, - ENOSPC) }
                                 else Some (fst r, 0) }))"

text \<open>
  \<open>storage_unlink\<close>: \<open>node->refs--\<close> is through the result of \<open>get_inode\<close>, which is not
  tested.
\<close>

definition storage_unlink :: "fs \<Rightarrow> string \<Rightarrow> (fs \<times> int) ub" where
  "storage_unlink s path =
     (case tree_lookup s path of
        None \<Rightarrow> None
      | Some inum \<Rightarrow>
          if inum < 0 then Some (s, - ENOENT)
          else case tree_lookup_parent s path of
                 None \<Rightarrow> None
               | Some parent_inum \<Rightarrow>
                   if parent_inum < 0 then Some (s, - ENOENT)
                   else case get_inode parent_inum of
                          None \<Rightarrow> Some (s, - ENOENT)
                        | Some parent \<Rightarrow>
                            (case directory_delete s parent (get_basename path) of
                               None \<Rightarrow> None
                             | Some d \<Rightarrow>
                                 if snd d < 0 then Some (fst d, - ENOENT)
                                 else case get_inode inum of
                                        None \<Rightarrow> None
                                      | Some node \<Rightarrow>
                                          let s2 = set_refs (fst d) node
                                                     (inode_refs (fst d) node - 1)
                                          in if inode_refs s2 node \<le> 0 then do {
                                               s3 \<leftarrow> free_inode s2 inum;
                                               Some (s3, 0) }
                                             else Some (s2, 0)))"

definition storage_link :: "fs \<Rightarrow> string \<Rightarrow> string \<Rightarrow> (fs \<times> int) ub" where
  "storage_link s from to =
     (case tree_lookup s from of
        None \<Rightarrow> None
      | Some from_inum \<Rightarrow>
          if from_inum < 0 then Some (s, - ENOENT)
          else case tree_lookup s to of
                 None \<Rightarrow> None
               | Some to_inum \<Rightarrow>
                   if to_inum \<ge> 0 then Some (s, - EEXIST)
                   else case tree_lookup_parent s to of
                          None \<Rightarrow> None
                        | Some parent_inum \<Rightarrow>
                            if parent_inum < 0 then Some (s, - ENOENT)
                            else case get_inode parent_inum of
                                   None \<Rightarrow> Some (s, - ENOENT)
                                 | Some parent \<Rightarrow>
                                     (case directory_put s parent (get_basename to) from_inum of
                                        None \<Rightarrow> None
                                      | Some p \<Rightarrow>
                                          if snd p < 0 then Some (fst p, - ENOSPC)
                                          else case get_inode from_inum of
                                                 None \<Rightarrow> None
                                               | Some node \<Rightarrow>
                                                   Some (set_refs (fst p) node
                                                           (inode_refs (fst p) node + 1), 0)))"

text \<open>
  \<open>storage_rename\<close>: the results of \<open>storage_unlink\<close> and of \<open>directory_delete\<close> are not
  looked at.
\<close>

definition storage_rename :: "fs \<Rightarrow> string \<Rightarrow> string \<Rightarrow> (fs \<times> int) ub" where
  "storage_rename s from to =
     (case tree_lookup s from of
        None \<Rightarrow> None
      | Some from_inum \<Rightarrow>
          if from_inum < 0 then Some (s, - ENOENT)
          else do {
            to_inum \<leftarrow> tree_lookup s to;
            s1 \<leftarrow> (if to_inum \<ge> 0 then map_option fst (storage_unlink s to) else Some s);
            from_parent_inum \<leftarrow> tree_lookup_parent s1 from;
            to_parent_inum \<leftarrow> tree_lookup_parent s1 to;
            if from_parent_inum < 0 \<or> to_parent_inum < 0 then Some (s1, - ENOENT)
            else case (get_inode from_parent_inum, get_inode to_parent_inum) of
                   (Some from_parent, Some to_parent) \<Rightarrow> do {
                     p \<leftarrow> directory_put s1 to_parent (get_basename to) from_inum;
                     if snd p < 0 then Some (fst p, - ENOSPC)
                     else do {
                       d \<leftarrow> directory_delete (fst p) from_parent (get_basename from);
                       Some (fst d, 0) } }
                 | _ \<Rightarrow> Some (s1, - ENOENT) })"

definition storage_set_time :: "fs \<Rightarrow> string \<Rightarrow> int \<Rightarrow> int \<Rightarrow> (fs \<times> int) ub" where
  "storage_set_time s path ts0 ts1 =
     (case tree_lookup s path of
        None \<Rightarrow> None
      | Some inum \<Rightarrow>
          if inum < 0 then Some (s, - ENOENT)
          else case get_inode inum of
                 None \<Rightarrow> Some (s, - ENOENT)
               | Some n \<Rightarrow> Some (set_mtime (set_atime s n ts0) n ts1, 0))"

definition storage_list :: "fs \<Rightarrow> string \<Rightarrow> string list ub" where
  "storage_list s path = directory_list s path"

text \<open>\<open>S_IFMT\<close> is \<open>0170000\<close>.\<close>

definition storage_chmod :: "fs \<Rightarrow> string \<Rightarrow> int \<Rightarrow> (fs \<times> int) ub" where
  "storage_chmod s path md =
     (case tree_lookup s path of
        None \<Rightarrow> None
      | Some inum \<Rightarrow>
          if inum < 0 then Some (s, - ENOENT)
          else case get_inode inum of
                 None \<Rightarrow> Some (s, - ENOENT)
               | Some n \<Rightarrow>
                   Some (set_mode s n ((inode_mode s n AND 61440) OR (md AND NOT 61440)), 0))"

section \<open>nufs.c\<close>

definition nufs_rmdir :: "fs \<Rightarrow> string \<Rightarrow> (fs \<times> int) ub" where
  "nufs_rmdir s path =
     (case storage_list s path of
        None \<Rightarrow> None
      | Some entries \<Rightarrow>
          if entries \<noteq> [] then Some (s, - ENOTEMPTY)
          else storage_unlink s path)"

section \<open>Runs of the operation surface\<close>

text \<open>
  One value for each call of the operation surface that can change the image; \<open>run_ops\<close>
  is the image after a sequence of calls, whatever they return.
\<close>

datatype fs_op =
    Read string buffer int int
  | Write string buffer int int
  | Truncate string int
  | Mknod string int
  | Unlink string
  | Link string string
  | Rename string string
  | SetTime string int int
  | Chmod string int
  | Rmdir string

fun run_op :: "fs \<Rightarrow> fs_op \<Rightarrow> fs ub" where
  "run_op s (Read path buf sz off) = map_option fst (storage_read s path buf sz off)"
| "run_op s (Write path buf sz off) = map_option fst (storage_write s path buf sz off)"
| "run_op s (Truncate path sz) = map_option fst (storage_truncate s path sz)"
| "run_op s (Mknod path md) = map_option fst (storage_mknod s path md)"
| "run_op s (Unlink path) = map_option fst (storage_unlink s path)"
| "run_op s (Link from to) = map_option fst (storage_link s from to)"
| "run_op s (Rename from to) = map_option fst (storage_rename s from to)"
| "run_op s (SetTime path t0 t1) = map_option fst (storage_set_time s path t0 t1)"
| "run_op s (Chmod path md) = map_option fst (storage_chmod s path md)"
| "run_op s (Rmdir path) = map_option fst (nufs_rmdir s path)"

fun run_ops :: "fs \<Rightarrow> fs_op list \<Rightarrow> fs ub" where
  "run_ops s [] = Some s"
| "run_ops s (op # ops) = (case run_op s op of None \<Rightarrow> None | Some s1 \<Rightarrow> run_ops s1 ops)"

section \<open>Concrete images\<close>

text \<open>
  Images given by the bytes of their inode records and directory entries, over an image
  of zero bytes.  \<open>a_img\<close> is a fresh image after \<open>mknod "/a"\<close> with mode \<open>0100644\<close>: the
  root directory is inode 0 with block 2, whose first entry names inode 1.  \<open>hello_img\<close>
  is the same image after \<open>write "/a" "hello" 5 0\<close>: inode 1 has size 5 and block 3.
  \<open>d_img\<close> is a fresh image after \<open>mknod("/d", 040755)\<close> and \<open>mknod("/a", 0100644)\<close>: the
  root directory names \<open>d\<close> (inode 1, an empty directory in block 3) and \<open>a\<close> (inode 2,
  an empty file).
\<close>

definition zero_mem :: memory where
  "zero_mem = (\<lambda>_. CHR 0x00)"

definition store_inode ::
  "memory \<Rightarrow> int \<Rightarrow> int \<Rightarrow> int \<Rightarrow> int \<Rightarrow> int \<Rightarrow> int \<Rightarrow> int \<Rightarrow> int \<Rightarrow> memory" where
  "store_inode m i r md sz b ind at mt =
     put_long (put_long (put_int (put_int (put_int (put_int (put_int m
       (inode_addr i) r) (inode_addr i + 4) md) (inode_addr i + 8) sz) (inode_addr i + 12) b)
       (inode_addr i + 16) ind) (inode_addr i + 24) at) (inode_addr i + 32) mt"

definition store_entry :: "memory \<Rightarrow> int \<Rightarrow> int \<Rightarrow> string \<Rightarrow> int \<Rightarrow> memory" where
  "store_entry m b idx name inum =
     put_int (\<lambda>k. if 4096 * b + 64 * idx \<le> k \<and> k < 4096 * b + 64 * idx + int (length name)
                  then name ! nat (k - (4096 * b + 64 * idx)) else m k)
       (4096 * b + 64 * idx + 48) inum"

definition hello_buf :: buffer where
  "hello_buf = (\<lambda>k. if 0 \<le> k \<and> k < 5 then ''hello'' ! nat k else CHR 0x00)"

definition blank_buf :: buffer where
  "blank_buf = (\<lambda>_. CHR ''.'')"

definition a_img :: fs where
  "a_img = \<lparr>bbm = (\<lambda>i. 0 \<le> i \<and> i \<le> 2), ibm = (\<lambda>i. 0 \<le> i \<and> i \<le> 1),
             mem = store_entry
                     (store_inode (store_inode zero_mem 0 1 16877 4096 2 0 1000 1000)
                        1 1 33188 0 0 0 1000 1000)
                     2 0 ''a'' 1,
             now = 1000, cur_uid = 0, cur_gid = 0\<rparr>"

definition hello_img :: fs where
  "hello_img = \<lparr>bbm = (\<lambda>i. 0 \<le> i \<and> i \<le> 3), ibm = (\<lambda>i. 0 \<le> i \<and> i \<le> 1),
             mem = (\<lambda>k. if 12288 \<le> k \<and> k < 12293 then ''hello'' ! nat (k - 12288)
                         else store_entry
                                (store_inode (store_inode zero_mem 0 1 16877 4096 2 0 1000 1000)
                                   1 1 33188 5 3 0 1000 1000)
                                2 0 ''a'' 1 k),
             now = 1000, cur_uid = 0, cur_gid = 0\<rparr>"

definition d_img :: fs where
  "d_img = \<lparr>bbm = (\<lambda>i. 0 \<le> i \<and> i \<le> 3), ibm = (\<lambda>i. 0 \<le> i \<and> i \<le> 2),
             mem = store_entry (store_entry
                     (store_inode (store_inode (store_inode zero_mem
                        0 1 16877 4096 2 0 1000 1000)
                        1 1 16877 4096 3 0 1000 1000)
                        2 1 33188 0 0 0 1000 1000)
                     2 0 ''d'' 1) 2 1 ''a'' 2,
             now = 1000, cur_uid = 0, cur_gid = 0\<rparr>"

text \<open>
  \<open>img84\<close> is a fresh image after 84 calls of \<open>storage_mknod\<close> with mode \<open>0100644\<close> for
  the paths \<open>/a1\<close>, \<open>/a2\<close>, ..., \<open>/i4\<close>: file \<open>j\<close> (inode \<open>j\<close>, for \<open>1 \<le> j \<le> 84\<close>) has
  the name made of the letter number \<open>j div 10\<close> and the digit \<open>j mod 10\<close>.  The root
  directory has grown to two blocks at the 65th file: its direct block is block 2, its
  second block is block 3, and block 4 is its indirect block.  The inodes 0 to 84 are in
  use; the record of inode 84 ends at byte 4079 of block 1.
\<close>

definition img84_entry :: "int \<Rightarrow> int \<Rightarrow> char" where
  "img84_entry j off =
     (if off = 0 then char_of (97 + j div 10)
      else if off = 1 then char_of (48 + j mod 10)
      else if off = 48 then char_of j
      else CHR 0x00)"

definition img84_inode :: "int \<Rightarrow> int \<Rightarrow> char" where
  "img84_inode i off =
     (if off = 0 then CHR 0x01
      else if off = 4 then (if i = 0 then CHR 0xED else CHR 0xA4)
      else if off = 5 then (if i = 0 then CHR 0x41 else CHR 0x81)
      else if off = 9 \<and> i = 0 then CHR 0x20
      else if off = 12 \<and> i = 0 then CHR 0x02
      else if off = 16 \<and> i = 0 then CHR 0x04
      else if off = 24 \<or> off = 32 then CHR 0xE8
      else if off = 25 \<or> off = 33 then CHR 0x03
      else CHR 0x00)"

definition img84 :: fs where
  "img84 = \<lparr>bbm = (\<lambda>i. 0 \<le> i \<and> i \<le> 4), ibm = (\<lambda>i. 0 \<le> i \<and> i \<le> 84),
             mem = (\<lambda>a. if 4096 \<le> a \<and> a < 8176
                           then img84_inode ((a - 4096) div 48) ((a - 4096) mod 48)
                         else if 8192 \<le> a \<and> a < 12288
                           then img84_entry ((a - 8192) div 64 + 1) ((a - 8192) mod 64)
                         else if 12288 \<le> a \<and> a < 13568
                           then img84_entry ((a - 12288) div 64 + 65) ((a - 12288) mod 64)
                         else if a = 16384 then CHR 0x03
                         else CHR 0x00),
             now = 1000, cur_uid = 0, cur_gid = 0\<rparr>"

text \<open>A buffer of \<open>x\<close> bytes followed by zero bytes from index 4096 on.\<close>

definition x_buf :: buffer where
  "x_buf = (\<lambda>k. if k < 4096 then CHR ''x'' else CHR 0x00)"

definition name47 :: string where
  "name47 = replicate 47 (CHR ''n'')"

text \<open>
  \<open>full85_img\<close> is \<open>img84\<close> after \<open>storage_mknod\<close> of the directory \<open>/dir5\<close> (mode \<open>040755\<close>)
  and 64 calls of \<open>storage_link\<close> that link \<open>/a2\<close> (inode 2) under the names \<open>l00\<close> to
  \<open>l63\<close> in it.  The directory is inode 85 and its block is block 5, which is full.  Its
  entry in the root directory took the slot 0, where the name of \<open>/a1\<close> was zeroed by
  \<open>alloc_inode\<close>: the bytes of the name \<open>dir5\<close> are the bytes of the field \<open>indirect\<close> of
  inode 85.
\<close>

definition full85_img :: fs where
  "full85_img =
     \<lparr>bbm = (\<lambda>i. 0 \<le> i \<and> i \<le> 5), ibm = (\<lambda>i. 0 \<le> i \<and> i \<le> 85),
      mem = (\<lambda>a. if a = 4192 then CHR 0x41
                  else if 8176 \<le> a \<and> a < 8192
                    then (if a = 8176 then CHR 0x01
                          else if a = 8180 then CHR 0xED
                          else if a = 8181 then CHR 0x41
                          else if a = 8185 then CHR 0x10
                          else if a = 8188 then CHR 0x05
                          else CHR 0x00)
                  else if 8192 \<le> a \<and> a < 8256
                    then (if a = 8192 then CHR ''d''
                          else if a = 8193 then CHR ''i''
                          else if a = 8194 then CHR ''r''
                          else if a = 8195 then CHR ''5''
                          else if a = 8240 then CHR 0x55
                          else CHR 0x00)
                  else if 20480 \<le> a \<and> a < 24576
                    then (let k = (a - 20480) div 64; off = (a - 20480) mod 64
                          in if off = 0 then CHR ''l''
                             else if off = 1 then char_of (48 + k div 10)
                             else if off = 2 then char_of (48 + k mod 10)
                             else if off = 48 then CHR 0x02
                             else CHR 0x00)
                  else mem img84 a),
      now = 1000, cur_uid = 0, cur_gid = 0\<rparr>"

text \<open>
  The calls that make inode 85 a directory whose own block is block 2: the root directory
  is truncated to nothing, which frees the blocks 2, 3 and 4, and the directory \<open>/x\<close> and
  the file \<open>/x/y\<close> are created.
\<close>

definition own_ops :: "fs_op list" where
  "own_ops = [Truncate ''/'' 0, Mknod ''/x'' 16877, Mknod ''/x/y'' 33188]"

text \<open>The path of one byte 6 under the root.\<close>

definition p06 :: string where
  "p06 = [CHR ''/'', CHR 0x06]"

section \<open>Conditions on an image\<close>

text \<open>
  The records of the inodes 0 to 84 lie in block 1, which the header reserves for the
  table; \<open>in_table_block i\<close> says that inode \<open>i\<close> is one of them.
\<close>

definition in_table_block :: "int \<Rightarrow> bool" where
  "in_table_block i = (0 \<le> i \<and> i < 85)"

text \<open>
  \<open>dir_blocks_off_table s di\<close>: none of the blocks that \<open>directory_get_entry\<close> takes the
  entries of the directory \<open>di\<close> from is block 1.
\<close>

definition dir_blocks_off_table :: "fs \<Rightarrow> int \<Rightarrow> bool" where
  "dir_blocks_off_table s di =
     list_all (\<lambda>j. inode_get_bnum s di j \<noteq> Some 1)
       [0 .. directory_max_entries s di div 64 - 1]"

text \<open>
  \<open>pointers_in_range s i\<close>: what \<open>free_inode\<close> passes to \<open>free_block\<close> for inode \<open>i\<close> are
  numbers of blocks, and the indirect block, if there is one, is a data block.
\<close>

definition pointers_in_range :: "fs \<Rightarrow> int \<Rightarrow> bool" where
  "pointers_in_range s i =
     (0 \<le> inode_block s i \<and> inode_block s i < 256 \<and>
      (inode_indirect s i = 0 \<or>
       data_block (inode_indirect s i) \<and>
       list_all (\<lambda>ii. 0 \<le> get_int (mem s) (4096 * inode_indirect s i + 4 * ii) \<and>
                      get_int (mem s) (4096 * inode_indirect s i + 4 * ii) < 256)
         [0 .. min (bytes_to_blocks (inode_size s i) - 1) 1024 - 1]))"

section \<open>Properties\<close>

subsection \<open>Unlinking the root\<close>

text \<open>
  C9.  \<open>storage_unlink "/"\<close> returns \<open>-ENOENT\<close> and leaves the whole state as it was, for
  every image: the basename of \<open>"/"\<close> is empty, and \<open>directory_delete\<close> rejects the empty
  name before it reads or writes anything.
\<close>

theorem storage_unlink_root:
  "get_basename ''/'' = [] \<and> storage_unlink s ''/'' = Some (s, - ENOENT)"
  by (simp add: storage_unlink_def tree_lookup_def tree_lookup_parent_def get_inode_def
      INODE_COUNT_def get_basename_def directory_delete_def c_str_def strlen_def)

subsection \<open>A link to a freed inode\<close>

text \<open>
  C3 on the image \<open>a_img\<close>.  \<open>storage_rename "/a/" "/y"\<close> returns 0: the source resolves
  to inode 1, the entry \<open>y\<close> is added, and \<open>directory_delete\<close> of the empty basename of
  \<open>"/a/"\<close> fails without \<open>storage_rename\<close> looking at its result, so \<open>"/a"\<close> and \<open>"/y"\<close>
  both name inode 1, whose \<open>refs\<close> is still 1.  \<open>storage_unlink "/a"\<close> then frees inode 1,
  and \<open>storage_link "/y" "/z"\<close> increments the \<open>refs\<close> of the freed inode: inode 1 has
  \<open>refs = 1\<close> while its bit in the inode bitmap is clear.
\<close>

theorem rename_trailing_slash_dangling_link:
  "ibm a_img 0 \<and> inode_refs a_img 0 = 1 \<and> ibm a_img 1 \<and> inode_refs a_img 1 = 1 \<and>
   tree_lookup a_img ''/a/'' = Some 1 \<and>
   map_option snd (storage_rename a_img ''/a/'' ''/y'') = Some 0 \<and>
   Option.bind (run_ops a_img [Rename ''/a/'' ''/y'']) (\<lambda>s. tree_lookup s ''/a'') = Some 1 \<and>
   Option.bind (run_ops a_img [Rename ''/a/'' ''/y'']) (\<lambda>s. tree_lookup s ''/y'') = Some 1 \<and>
   map_option (\<lambda>s. inode_refs s 1) (run_ops a_img [Rename ''/a/'' ''/y'']) = Some 1 \<and>
   map_option snd (Option.bind (run_ops a_img [Rename ''/a/'' ''/y''])
                     (\<lambda>s. storage_unlink s ''/a'')) = Some 0 \<and>
   map_option snd (Option.bind (run_ops a_img [Rename ''/a/'' ''/y'', Unlink ''/a''])
                     (\<lambda>s. storage_link s ''/y'' ''/z'')) = Some 0 \<and>
   map_option (\<lambda>s. (inode_refs s 1, ibm s 1))
     (run_ops a_img [Rename ''/a/'' ''/y'', Unlink ''/a'', Link ''/y'' ''/z''])
     = Some (1, False)"
  by code_simp

subsection \<open>The block number of an unallocated block\<close>

text \<open>
  C4 on the image \<open>a_img\<close>, for the empty file of inode 1, which has no block at all
  (\<open>size\<close>, \<open>block\<close> and \<open>indirect\<close> are 0).  \<open>inode_get_bnum\<close> returns -1 for its logical
  block 1, and 0, not -1, for its logical block 0: for the direct block the function
  returns the field \<open>block\<close> without a test, while its comment says that it returns -1 if
  the block is not allocated.
\<close>

theorem inode_get_bnum_unallocated_direct:
  "ibm a_img 1 \<and> inode_size a_img 1 = 0 \<and> inode_block a_img 1 = 0 \<and>
   inode_indirect a_img 1 = 0 \<and>
   inode_get_bnum a_img 1 1 = Some (-1) \<and> inode_get_bnum a_img 1 0 = Some 0"
  by code_simp

subsection \<open>A read past the end of the file\<close>

text \<open>
  C5 on the image \<open>hello_img\<close>, where \<open>/a\<close> has the five bytes \<open>hello\<close>.  A read of 10
  bytes at offset 0 returns 5 and leaves byte 5 of the buffer alone.  A read of \<open>2^63\<close>
  bytes at offset 0 returns 4096 and copies the 4091 bytes of the block that follow the
  file's last byte: \<open>(off_t)size\<close> is negative, the test
  \<open>offset + (off_t)size > node->size\<close> fails, and the size is not clamped.
\<close>

theorem storage_read_size_cast:
  "tree_lookup hello_img ''/a'' = Some 1 \<and> inode_size hello_img 1 = 5 \<and>
   map_option (\<lambda>r. (fst (snd r), snd (snd r) 4, snd (snd r) 5))
     (storage_read hello_img ''/a'' blank_buf 10 0) = Some (5, CHR ''o'', CHR ''.'') \<and>
   map_option (\<lambda>r. (fst (snd r), snd (snd r) 4, snd (snd r) 5, snd (snd r) 4095))
     (storage_read hello_img ''/a'' blank_buf 9223372036854775808 0)
     = Some (4096, CHR ''o'', CHR 0x00, CHR 0x00)"
  by code_simp

subsection \<open>Writing and reading the file of inode 85\<close>

text \<open>
  C1 on the image \<open>img84\<close>.  The 85th file, \<open>p06\<close>, is created by \<open>storage_mknod\<close> as inode
  85, with size 0 and no block.  Its record is the bytes 4080 to 4127 of the table, and
  the table starts at block 1: the fields from \<open>indirect\<close> on are the first 32 bytes of
  block 2, the first name of the root directory, where \<open>directory_put\<close> writes the name of
  the file.  So \<open>indirect\<close> is 6 when the file is new.  \<open>storage_write\<close> of 8192 bytes
  returns 8192: \<open>grow_inode\<close> allocates the blocks 5 and 6 and, since \<open>indirect\<close> is not 0,
  allocates no indirect block and stores the number of block 6 in block 6 itself, which
  the second half of the written bytes then covers.  \<open>storage_read\<close> of 8192 bytes
  returns 4096.
\<close>

theorem write_then_read_inode_85:
  "tree_lookup img84 p06 = Some (-1) \<and>
   map_option snd (storage_mknod img84 p06 33188) = Some 0 \<and>
   map_option (\<lambda>s. (tree_lookup s p06, inode_mode s 85, inode_size s 85, inode_block s 85,
                     inode_indirect s 85))
     (run_ops img84 [Mknod p06 33188]) = Some (Some 85, 33188, 0, 0, 6) \<and>
   map_option snd (Option.bind (run_ops img84 [Mknod p06 33188])
                     (\<lambda>s. storage_write s p06 x_buf 8192 0)) = Some 8192 \<and>
   map_option (\<lambda>s. (inode_size s 85, inode_block s 85, inode_indirect s 85,
                     inode_get_bnum s 85 1))
     (run_ops img84 [Mknod p06 33188, Write p06 x_buf 8192 0]) = Some (8192, 5, 6, Some 0) \<and>
   map_option (\<lambda>r. fst (snd r))
     (Option.bind (run_ops img84 [Mknod p06 33188, Write p06 x_buf 8192 0])
        (\<lambda>s. storage_read s p06 blank_buf 8192 0)) = Some 4096"
  by code_simp

subsection \<open>Growing the directory of inode 85\<close>

text \<open>
  C7 on the image \<open>full85_img\<close>.  Inode 85 is a directory of one block, block 5, with no
  empty slot; block 6 is free, so the directory can grow by one block.  For a name of 47
  bytes \<open>directory_put\<close> has no defined result: \<open>grow_inode\<close> finds \<open>indirect\<close> not 0, since
  the field is the first four bytes of the name \<open>dir5\<close> in the root directory, and stores
  the number of the new block at \<open>blocks_get_block(896690532)\<close>, an address far outside
  the image.
\<close>

theorem directory_put_grows_inode_85:
  "tree_lookup full85_img ''/dir5'' = Some 85 \<and>
   inode_mode full85_img 85 = 16877 \<and> inode_size full85_img 85 = 4096 \<and>
   inode_block full85_img 85 = 5 \<and> inode_indirect full85_img 85 = 896690532 \<and>
   find_empty full85_img 85 [0 .. directory_max_entries full85_img 85 - 1] = Some None \<and>
   \<not> bbm full85_img 6 \<and> strlen name47 = 47 \<and>
   directory_put full85_img 85 name47 2 = None"
  by code_simp

subsection \<open>Deleting from the directory of inode 85\<close>

text \<open>
  C8 on the image that the calls \<open>own_ops\<close> make of \<open>img84\<close>.  The directory \<open>/x\<close> is inode
  85 and its block is block 2, so the first 32 bytes of its first entry, the name \<open>y\<close>, are
  the fields of its own record from \<open>indirect\<close> on: \<open>indirect\<close> is 121, the letter \<open>y\<close>.
  \<open>directory_delete\<close> of \<open>y\<close> returns 0 and zeroes the entry, and \<open>indirect\<close> of the
  directory is 0 afterwards.
\<close>

theorem directory_delete_own_record:
  "map_option (\<lambda>s. (tree_lookup s ''/x'', tree_lookup s ''/x/y'', inode_mode s 85,
                     inode_size s 85, inode_block s 85, inode_indirect s 85))
     (run_ops img84 own_ops) = Some (Some 85, Some 86, 16877, 4096, 2, 121) \<and>
   map_option (\<lambda>r. (snd r, inode_size (fst r) 85, inode_block (fst r) 85,
                     inode_indirect (fst r) 85))
     (Option.bind (run_ops img84 own_ops) (\<lambda>s. directory_delete s 85 ''y''))
     = Some (0, 4096, 2, 0)"
  by code_simp

subsection \<open>Integers in memory\<close>

lemma int_bytes_sum:
  "(v::int) mod 256 + 256 * (v div 256 mod 256) + 65536 * (v div 65536 mod 256)
     + 16777216 * (v div 16777216 mod 256) = v mod 4294967296"
proof -
  have a: "v mod 65536 = 256 * (v div 256 mod 256) + v mod 256"
    using zmod_zmult2_eq [of 256 v 256] by simp
  have b: "v mod 16777216 = 65536 * (v div 65536 mod 256) + v mod 65536"
    using zmod_zmult2_eq [of 256 v 65536] by simp
  have c: "v mod 4294967296 = 16777216 * (v div 16777216 mod 256) + v mod 16777216"
    using zmod_zmult2_eq [of 256 v 16777216] by simp
  show ?thesis using a b c by linarith
qed

lemma get_put_int_same:
  assumes "- 2147483648 \<le> v" and "v < 2147483648"
  shows "get_int (put_int m a v) a = v"
proof -
  have m: "v mod 4294967296 = (if v < 0 then v + 4294967296 else v)"
  proof (cases "v < 0")
    case True
    then have "(v + 4294967296) mod 4294967296 = v + 4294967296"
      using assms by (intro mod_pos_pos_trivial) simp_all
    then show ?thesis using True by simp
  next
    case False
    then show ?thesis using assms by simp
  qed
  have b0: "(of_char (put_int m a v a) :: int) = v mod 256"
    and b1: "(of_char (put_int m a v (a + 1)) :: int) = v div 256 mod 256"
    and b2: "(of_char (put_int m a v (a + 2)) :: int) = v div 65536 mod 256"
    and b3: "(of_char (put_int m a v (a + 3)) :: int) = v div 16777216 mod 256"
    by (simp_all add: put_int_def enc_int_def)
  have "get_int (put_int m a v) a =
     (let u = v mod 4294967296 in if u \<ge> 2147483648 then u - 4294967296 else u)"
    unfolding get_int_def b0 b1 b2 b3 int_bytes_sum ..
  also have "\<dots> = v"
  proof (cases "v < 0")
    case True
    with m assms show ?thesis by (simp add: Let_def)
  next
    case False
    with m assms show ?thesis by (simp add: Let_def)
  qed
  finally show ?thesis .
qed

lemma get_put_int_other:
  "a' + 4 \<le> a \<or> a + 4 \<le> a' \<Longrightarrow> get_int (put_int m a v) a' = get_int m a'"
  by (auto simp: get_int_def put_int_def)

lemma get_int_memset_other:
  "a + 4 \<le> x \<or> x + n \<le> a \<Longrightarrow> get_int (memset_zero m x n) a = get_int m a"
  by (auto simp: get_int_def memset_zero_def)

lemma get_int_memset_in:
  "x \<le> a \<Longrightarrow> a + 4 \<le> x + n \<Longrightarrow> get_int (memset_zero m x n) a = 0"
  by (auto simp: get_int_def memset_zero_def)

lemma of_char_range: "0 \<le> (of_char c :: int) \<and> (of_char c :: int) < 256"
  using pos_mod_sign [of 256 "of_char c :: int"] pos_mod_bound [of 256 "of_char c :: int"]
  by simp

lemma get_int_range: "- 2147483648 \<le> get_int m a \<and> get_int m a < 2147483648"
proof -
  define b0 b1 b2 b3 :: int where "b0 = of_char (m a)" and "b1 = of_char (m (a + 1))"
    and "b2 = of_char (m (a + 2))" and "b3 = of_char (m (a + 3))"
  have r: "0 \<le> b0" "b0 < 256" "0 \<le> b1" "b1 < 256" "0 \<le> b2" "b2 < 256" "0 \<le> b3" "b3 < 256"
    using of_char_range unfolding b0_def b1_def b2_def b3_def by blast+
  define u where "u = b0 + 256 * b1 + 65536 * b2 + 16777216 * b3"
  have u: "0 \<le> u" "u < 4294967296" using r unfolding u_def by linarith+
  have "get_int m a = (if u \<ge> 2147483648 then u - 4294967296 else u)"
    unfolding get_int_def Let_def u_def b0_def b1_def b2_def b3_def ..
  then show ?thesis using u by auto
qed

subsection \<open>Path resolution\<close>

lemma slist_explode_nonempty: "slist_explode xs d \<noteq> []"
  by (induction xs) (auto split: list.splits)

lemma slist_explode_single: "d \<notin> set base \<Longrightarrow> slist_explode base d = [base]"
  by (induction base) auto

lemma slist_explode_snoc:
  "d \<notin> set base \<Longrightarrow> slist_explode (pre @ d # base) d = slist_explode pre d @ [base]"
proof (induction pre)
  case Nil
  then show ?case by (simp add: slist_explode_single)
next
  case (Cons c pre)
  then show ?case
    using slist_explode_nonempty [of pre d]
    by (cases "slist_explode pre d") auto
qed

lemma tree_walk_fail: "tree_walk s (-1) cs = Some (-1)"
  by (induction cs) (auto simp: get_inode_def)

lemma tree_walk_append:
  "tree_walk s c (xs @ ys) =
     (case tree_walk s c xs of None \<Rightarrow> None | Some m \<Rightarrow> tree_walk s m ys)"
proof (induction xs arbitrary: c)
  case Nil
  show ?case by simp
next
  case (Cons x xs)
  show ?case
    by (auto simp: Cons.IH tree_walk_fail split: option.splits)
qed

lemma c_str_take: "c_str (take n (c_str p)) = take n (c_str p)"
proof -
  have "\<forall>x \<in> set (take n (c_str p)). x \<noteq> CHR 0x00"
    using set_takeWhileD [of _ "\<lambda>c. c \<noteq> CHR 0x00" p] in_set_takeD [of _ n "c_str p"]
    unfolding c_str_def by blast
  then show ?thesis unfolding c_str_def [of "take n _"] by (simp add: takeWhile_eq_all_conv)
qed

lemma path_decomp:
  assumes "c_str path = CHR ''/'' # tail"
  shows "\<exists>q. c_str path = q @ CHR ''/'' # get_basename path \<and>
             CHR ''/'' \<notin> set (get_basename path)"
proof -
  let ?P = "\<lambda>c. c \<noteq> CHR ''/''"
  let ?p = "c_str path"
  have "rev ?p = takeWhile ?P (rev ?p) @ dropWhile ?P (rev ?p)" by simp
  then have p: "?p = rev (dropWhile ?P (rev ?p)) @ get_basename path"
    unfolding get_basename_def by (metis rev_append rev_rev_ident)
  have "CHR ''/'' \<in> set (rev ?p)" using assms by simp
  then have ne: "dropWhile ?P (rev ?p) \<noteq> []" by (simp add: dropWhile_eq_Nil_conv)
  then have "\<not> ?P (hd (dropWhile ?P (rev ?p)))" by (rule hd_dropWhile)
  then obtain r where "dropWhile ?P (rev ?p) = CHR ''/'' # r"
    using ne by (cases "dropWhile ?P (rev ?p)") auto
  then have "?p = rev r @ CHR ''/'' # get_basename path" using p by simp
  moreover have "CHR ''/'' \<notin> set (get_basename path)"
    unfolding get_basename_def using set_takeWhileD by fastforce
  ultimately show ?thesis by blast
qed

lemma tree_lookup_walk:
  "c_str p = CHR ''/'' # pre \<Longrightarrow> tree_lookup s p = tree_walk s 0 (slist_explode pre (CHR ''/''))"
  by (cases pre) (simp_all add: tree_lookup_def)

lemma tree_lookup_via_parent:
  assumes "c_str path = CHR ''/'' # tail" and "get_basename path \<noteq> []"
  shows "tree_lookup s path =
           (case tree_lookup_parent s path of
              None \<Rightarrow> None
            | Some p \<Rightarrow> tree_walk s p [get_basename path])"
proof -
  let ?b = "get_basename path"
  from path_decomp [OF assms(1)] obtain q where q: "c_str path = q @ CHR ''/'' # ?b"
    and nb: "CHR ''/'' \<notin> set ?b" by blast
  have tne: "tail \<noteq> []" using q assms by (cases q) auto
  have len: "length (c_str path) - 1 - length ?b = length q"
    by (subst q) simp
  show ?thesis
  proof (cases q)
    case Nil
    then have "tail = ?b" using q assms(1) by simp
    then have "tree_lookup s path = tree_walk s 0 [?b]"
      using assms(1) nb tree_lookup_walk [of path tail s] by (simp add: slist_explode_single)
    moreover have "tree_lookup_parent s path = Some 0"
      using assms(1) tne len Nil by (simp add: tree_lookup_parent_def Let_def)
    ultimately show ?thesis by simp
  next
    case (Cons c pre)
    then have c: "c = CHR ''/''" and tail: "tail = pre @ CHR ''/'' # ?b"
      using q assms(1) by auto
    have tk: "take (length q) (c_str path) = q" by (subst q) simp
    have cq: "c_str q = q" using c_str_take [of "length q" path] tk by simp
    have "tree_lookup_parent s path = tree_lookup s q"
      using assms(1) tne len Cons tk by (simp add: tree_lookup_parent_def Let_def)
    then have par: "tree_lookup_parent s path = tree_walk s 0 (slist_explode pre (CHR ''/''))"
      using Cons c cq tree_lookup_walk [of q pre s] by simp
    have "tree_lookup s path = tree_walk s 0 (slist_explode pre (CHR ''/'') @ [?b])"
      using assms(1) tail nb tree_lookup_walk [of path tail s]
        slist_explode_snoc [of "CHR ''/''" ?b pre]
      by simp
    then show ?thesis using par by (simp add: tree_walk_append)
  qed
qed

lemma c_str_basename: "c_str (get_basename path) = get_basename path"
proof -
  have "set (get_basename path) \<subseteq> set (c_str path)"
    unfolding get_basename_def using set_takeWhileD by fastforce
  moreover have "\<forall>x \<in> set (c_str path). x \<noteq> CHR 0x00"
    unfolding c_str_def using set_takeWhileD by fastforce
  ultimately have "\<forall>x \<in> set (get_basename path). x \<noteq> CHR 0x00" by blast
  then show ?thesis unfolding c_str_def [of "get_basename path"] by (simp add: takeWhile_eq_all_conv)
qed

subsection \<open>Scanning a directory\<close>

lemma find_entry_Some:
  "find_entry s di name idxs = Some (Some e) \<Longrightarrow>
     \<exists>ii \<in> set idxs. directory_get_entry s di ii = Some (Some e) \<and>
                      entry_matches s e name = Some True"
  by (induction idxs) (auto split: option.splits if_splits)

lemma directory_get_entry_SomeD:
  "directory_get_entry s di ii = Some (Some e) \<Longrightarrow>
     0 \<le> ii \<and> inode_get_bnum s di (ii div 64) = Some (fst e) \<and> 0 < fst e \<and> snd e = ii mod 64"
  by (auto simp: directory_get_entry_def Let_def BLOCK_SIZE_def split: if_splits option.splits)

lemma entry_mapped:
  assumes "entry_inum s e = Some i" and "0 < fst e" and "0 \<le> snd e" and "snd e < 64"
  shows "mapped (entry_addr e) 64 \<and> fst e \<le> 255"
proof -
  define q where "q = 64 * fst e + snd e"
  have a: "entry_addr e = 64 * q" by (simp add: entry_addr_def q_def)
  have "mapped (entry_addr e + 48) 4"
    using assms(1) by (auto simp: entry_inum_def read_int_def DIR_NAME_LENGTH_def split: if_splits)
  then have "64 * q + 52 \<le> 1048576" unfolding a mapped_def by simp
  then have "q \<le> 16383" by linarith
  moreover have "64 \<le> q" using assms(2,3) unfolding q_def by linarith
  ultimately show ?thesis using assms(3,4) unfolding a mapped_def by (simp add: q_def)
qed

lemma entry_matches_TrueD:
  "entry_matches s e name = Some True \<Longrightarrow> \<exists>i. entry_inum s e = Some i \<and> i \<noteq> 0"
  by (auto simp: entry_matches_def split: option.splits if_splits)

subsection \<open>Removing a regular file with rmdir\<close>

lemma free_indirect_entries_ok:
  assumes "\<forall>ii \<in> set idxs. mapped (tbl + 4 * ii) 4 \<and> 0 \<le> get_int (mem s) (tbl + 4 * ii) \<and>
             get_int (mem s) (tbl + 4 * ii) < 256"
  shows "\<exists>s'. free_indirect_entries s tbl idxs = Some s' \<and> mem s' = mem s \<and> ibm s' = ibm s"
  using assms
proof (induction idxs arbitrary: s)
  case Nil
  show ?case by simp
next
  case (Cons ii rest)
  let ?v = "get_int (mem s) (tbl + 4 * ii)"
  have r: "read_int s (tbl + 4 * ii) = Some ?v" using Cons.prems by (simp add: read_int_def)
  define s1 where "s1 = (if ?v \<noteq> 0 then s\<lparr>bbm := (bbm s)(?v := False)\<rparr> else s)"
  have s1: "(if ?v \<noteq> 0 then free_block s ?v else Some s) = Some s1"
    using Cons.prems by (simp add: free_block_def s1_def)
  have m1: "mem s1 = mem s" and i1: "ibm s1 = ibm s" by (simp_all add: s1_def)
  have "\<forall>jj \<in> set rest. mapped (tbl + 4 * jj) 4 \<and> 0 \<le> get_int (mem s1) (tbl + 4 * jj) \<and>
             get_int (mem s1) (tbl + 4 * jj) < 256"
    using Cons.prems m1 by simp
  from Cons.IH [OF this] obtain s' where "free_indirect_entries s1 tbl rest = Some s'"
    and "mem s' = mem s1" and "ibm s' = ibm s1" by blast
  then show ?case using r s1 m1 i1 by simp
qed

lemma aligned_in_or_out:
  fixes b off ind ii :: int
  shows "4096 * ind + 4 * ii + 4 \<le> 4096 * b + 64 * off \<or>
         4096 * b + 64 * off + 64 \<le> 4096 * ind + 4 * ii \<or>
         (4096 * b + 64 * off \<le> 4096 * ind + 4 * ii \<and>
          4096 * ind + 4 * ii + 4 \<le> 4096 * b + 64 * off + 64)"
proof -
  define A where "A = 1024 * ind + ii"
  define E where "E = 1024 * b + 16 * off"
  have a: "4096 * ind + 4 * ii = 4 * A" and e: "4096 * b + 64 * off = 4 * E"
    by (simp_all add: A_def E_def)
  have "4 * A + 4 \<le> 4 * E \<or> 4 * E + 64 \<le> 4 * A \<or> (4 * E \<le> 4 * A \<and> 4 * A + 4 \<le> 4 * E + 64)"
    by arith
  then show ?thesis unfolding a e .
qed

lemma free_inode_ok:
  assumes "0 \<le> inum" and "inum < 128"
    and "0 \<le> inode_block s inum" and "inode_block s inum < 256"
    and "inode_indirect s inum = 0 \<or>
         (1 \<le> inode_indirect s inum \<and> inode_indirect s inum < 256 \<and>
          (\<forall>ii \<in> set [0 .. min (bytes_to_blocks (inode_size s inum) - 1) 1024 - 1].
             0 \<le> get_int (mem s) (4096 * inode_indirect s inum + 4 * ii) \<and>
             get_int (mem s) (4096 * inode_indirect s inum + 4 * ii) < 256))"
  shows "\<exists>s'. free_inode s inum = Some s' \<and>
              mem s' = memset_zero (mem s) (inode_addr inum) 48 \<and>
              ibm s' = (ibm s)(inum := False)"
proof -
  define s1 where "s1 = (if inode_block s inum \<noteq> 0
                         then s\<lparr>bbm := (bbm s)(inode_block s inum := False)\<rparr> else s)"
  have s1: "(if inode_block s inum \<noteq> 0 then free_block s (inode_block s inum) else Some s) = Some s1"
    using assms(3,4) by (simp add: free_block_def s1_def)
  have m1: "mem s1 = mem s" and i1: "ibm s1 = ibm s" by (simp_all add: s1_def)
  have f1: "inode_indirect s1 inum = inode_indirect s inum" "inode_size s1 inum = inode_size s inum"
    by (simp_all add: inode_indirect_def inode_size_def m1)
  show ?thesis
  proof (cases "inode_indirect s inum = 0")
    case True
    then show ?thesis
      using assms(1,2) s1 m1 i1 f1 by (simp add: free_inode_def INODE_COUNT_def)
  next
    case False
    let ?ind = "inode_indirect s inum"
    let ?idxs = "[0 .. min (bytes_to_blocks (inode_size s inum) - 1) 1024 - 1]"
    have ind: "1 \<le> ?ind" "?ind < 256"
      and tbl: "\<forall>ii \<in> set ?idxs. 0 \<le> get_int (mem s) (4096 * ?ind + 4 * ii) \<and>
                  get_int (mem s) (4096 * ?ind + 4 * ii) < 256"
      using assms(5) False by blast+
    have "\<forall>ii \<in> set ?idxs. mapped (4096 * ?ind + 4 * ii) 4 \<and>
             0 \<le> get_int (mem s1) (4096 * ?ind + 4 * ii) \<and>
             get_int (mem s1) (4096 * ?ind + 4 * ii) < 256"
      using tbl ind by (auto simp: mapped_def m1)
    from free_indirect_entries_ok [OF this] obtain s3
      where s3: "free_indirect_entries s1 (4096 * ?ind) ?idxs = Some s3"
        and m3: "mem s3 = mem s1" and i3: "ibm s3 = ibm s1" by blast
    have f3: "inode_indirect s3 inum = ?ind" by (simp add: inode_indirect_def m3 m1)
    have fb: "free_block s3 ?ind = Some (s3\<lparr>bbm := (bbm s3)(?ind := False)\<rparr>)"
      using ind by (simp add: free_block_def)
    show ?thesis
      using assms(1,2) False s1 f1 s3 f3 fb m3 m1 i3 i1
      by (simp add: free_inode_def INODE_COUNT_def)
  qed
qed

text \<open>
  C10, for a path that does not end in a slash and a file whose record lies in block 1.
  When the path resolves to an inode without the directory bit, \<open>storage_list\<close> is empty,
  so \<open>nufs_rmdir\<close> is \<open>storage_unlink\<close>: it returns 0, the entry that the lookup found
  in the parent is zeroed, and the inode's \<open>refs\<close> goes down by one, the inode being
  freed when it reaches 0.
\<close>

theorem nufs_rmdir_regular_file:
  assumes lk: "tree_lookup s path = Some inum" and tb: "in_table_block inum"
    and reg: "inode_mode s inum AND 16384 = 0"
    and base: "get_basename path \<noteq> []"
    and live: "1 \<le> inode_refs s inum"
    and par: "tree_lookup_parent s path = Some p" and off: "dir_blocks_off_table s p"
    and ptr: "pointers_in_range s inum"
  shows "\<exists>s' e. nufs_rmdir s path = Some (s', 0) \<and>
           storage_unlink s path = Some (s', 0) \<and>
           find_entry s p (get_basename path) [0 .. directory_max_entries s p - 1]
             = Some (Some e) \<and>
           entry_inum s e = Some inum \<and>
           (\<forall>k. 0 \<le> k \<and> k < 64 \<longrightarrow> mem s' (entry_addr e + k) = CHR 0x00) \<and>
           (if 1 < inode_refs s inum
            then inode_refs s' inum = inode_refs s inum - 1 \<and> ibm s' = ibm s \<and> bbm s' = bbm s
            else \<not> ibm s' inum \<and>
                 (\<forall>k. 0 \<le> k \<and> k < 48 \<longrightarrow> mem s' (inode_addr inum + k) = CHR 0x00))"
proof -
  let ?b = "get_basename path"
  have i0: "0 \<le> inum" and i85: "inum < 85" using tb by (simp_all add: in_table_block_def)
  obtain tail where path: "c_str path = CHR ''/'' # tail"
    using lk i0 by (cases "c_str path") (auto simp: tree_lookup_def split: if_splits)
  have w: "tree_walk s p [?b] = Some inum"
    using tree_lookup_via_parent [OF path base, of s] lk par by simp
  have pin: "get_inode p = Some p"
    using w i0 base by (auto simp: get_inode_def split: option.splits if_splits)
  then have p0: "0 \<le> p" by (auto simp: get_inode_def split: if_splits)
  have bne: "strlen ?b \<noteq> 0"
  proof -
    show ?thesis using base by (simp add: strlen_def c_str_basename)
  qed
  have dl: "directory_lookup s p ?b = Some inum"
    using w i0 base pin by (auto simp: Let_def split: if_splits option.splits)
  then obtain e where e: "find_entry s p ?b [0 .. directory_max_entries s p - 1] = Some (Some e)"
    and ei: "entry_inum s e = Some inum"
    using i0 bne by (auto simp: directory_lookup_def split: option.splits if_splits)
  from find_entry_Some [OF e] obtain ii
    where ii: "ii \<in> set [0 .. directory_max_entries s p - 1]"
      and ge: "directory_get_entry s p ii = Some (Some e)" by blast
  from directory_get_entry_SomeD [OF ge]
  have ii0: "0 \<le> ii" and bn: "inode_get_bnum s p (ii div 64) = Some (fst e)"
    and fe: "0 < fst e" and se: "snd e = ii mod 64" by simp_all
  have se0: "0 \<le> snd e" and se64: "snd e < 64" using se by simp_all
  have mp: "mapped (entry_addr e) 64" using entry_mapped [OF ei fe se0 se64] by simp
  have fe1: "fst e \<noteq> 1"
  proof -
    define nb where "nb = directory_max_entries s p div 64"
    have "directory_max_entries s p = 64 * nb"
      unfolding nb_def directory_max_entries_def BLOCK_SIZE_def by simp
    then have "ii < 64 * nb" using ii by simp
    moreover have "ii = 64 * (ii div 64) + ii mod 64" by simp
    moreover have "0 \<le> ii mod 64" by simp
    ultimately have "ii div 64 < nb" by linarith
    moreover have "0 \<le> ii div 64" using ii0 by (simp add: pos_imp_zdiv_nonneg_iff)
    ultimately have "ii div 64 \<in> set [0 .. directory_max_entries s p div 64 - 1]"
      unfolding nb_def by simp
    then have "inode_get_bnum s p (ii div 64) \<noteq> Some 1"
      using off unfolding dir_blocks_off_table_def list_all_iff by blast
    then show ?thesis using bn by simp
  qed
  define ea where "ea = entry_addr e"
  define ia where "ia = inode_addr inum"
  have ea: "8192 \<le> ea" using fe fe1 se0 unfolding ea_def entry_addr_def by linarith
  have ia: "4096 \<le> ia" "ia + 48 \<le> 8176" using i0 i85 unfolding ia_def inode_addr_def by linarith+
  have lst: "storage_list s path = Some []"
    using lk i0 i85 reg
    by (simp add: storage_list_def directory_list_def get_inode_def INODE_COUNT_def)
  have r: "nufs_rmdir s path = storage_unlink s path"
    using lst by (simp add: nufs_rmdir_def)
  define s1 where "s1 = s\<lparr>mem := memset_zero (mem s) ea 64\<rparr>"
  have ce: "clear_entry s e = Some s1" using mp by (simp add: clear_entry_def s1_def ea_def)
  have dd: "directory_delete s p ?b = Some (s1, 0)"
    using e bne ce by (simp add: directory_delete_def)
  have fld1: "get_int (mem s1) (ia + k) = get_int (mem s) (ia + k)" if "0 \<le> k" "k \<le> 44" for k
    unfolding s1_def using that ea ia by (simp add: get_int_memset_other)
  define rf where "rf = inode_refs s inum"
  have rf1: "inode_refs s1 inum = rf"
    using fld1 [of 0] by (simp add: inode_refs_def rf_def ia_def)
  define s2 where "s2 = set_refs s1 inum (rf - 1)"
  have m2: "mem s2 = put_int (mem s1) ia (rf - 1)" by (simp add: s2_def set_refs_def ia_def)
  have rfr: "- 2147483648 \<le> rf - 1" "rf - 1 < 2147483648"
    using live get_int_range [of "mem s" "inode_addr inum"] by (simp_all add: rf_def inode_refs_def)
  have rf2: "inode_refs s2 inum = rf - 1"
    using get_put_int_same [OF rfr] by (simp add: inode_refs_def m2 ia_def)
  have fld2: "get_int (mem s2) (ia + k) = get_int (mem s) (ia + k)" if "4 \<le> k" "k \<le> 44" for k
    using that fld1 [of k] by (simp add: m2 get_put_int_other)
  have ent2: "mem s2 (ea + k) = CHR 0x00" if "0 \<le> k" "k < 64" for k
    using that ea ia by (simp add: m2 put_int_def s1_def memset_zero_def)
  have gi: "get_inode inum = Some inum" using i0 i85 by (simp add: get_inode_def INODE_COUNT_def)
  have u: "storage_unlink s path =
             (if rf - 1 \<le> 0 then (case free_inode s2 inum of None \<Rightarrow> None | Some s3 \<Rightarrow> Some (s3, 0))
              else Some (s2, 0))"
    using lk i0 par p0 pin dd gi rf1 rf2
    by (simp add: storage_unlink_def Let_def s2_def split: option.splits)
  show ?thesis
  proof (cases "1 < rf")
    case True
    then have "storage_unlink s path = Some (s2, 0)" using u by simp
    moreover have "ibm s2 = ibm s" "bbm s2 = bbm s" by (simp_all add: s2_def set_refs_def s1_def)
    ultimately show ?thesis
      using r e ei ent2 rf2 True unfolding rf_def ea_def by auto
  next
    case False
    then have rf: "rf = 1" using live by (simp add: rf_def)
    have blk: "inode_block s2 inum = inode_block s inum"
      and ind: "inode_indirect s2 inum = inode_indirect s inum"
      and sz: "inode_size s2 inum = inode_size s inum"
      using fld2 [of 12] fld2 [of 16] fld2 [of 8]
      by (simp_all add: inode_block_def inode_indirect_def inode_size_def ia_def)
    have p1: "0 \<le> inode_block s2 inum" "inode_block s2 inum < 256"
      using ptr unfolding pointers_in_range_def blk by simp_all
    have p2: "inode_indirect s2 inum = 0 \<or>
         (1 \<le> inode_indirect s2 inum \<and> inode_indirect s2 inum < 256 \<and>
          (\<forall>ii \<in> set [0 .. min (bytes_to_blocks (inode_size s2 inum) - 1) 1024 - 1].
             0 \<le> get_int (mem s2) (4096 * inode_indirect s2 inum + 4 * ii) \<and>
             get_int (mem s2) (4096 * inode_indirect s2 inum + 4 * ii) < 256))"
    proof (cases "inode_indirect s inum = 0")
      case True
      then show ?thesis using ind by simp
    next
      case False
      let ?ind = "inode_indirect s inum"
      have db: "data_block ?ind"
        and tbl: "\<forall>ii \<in> set [0 .. min (bytes_to_blocks (inode_size s inum) - 1) 1024 - 1].
                  0 \<le> get_int (mem s) (4096 * ?ind + 4 * ii) \<and>
                  get_int (mem s) (4096 * ?ind + 4 * ii) < 256"
        using ptr False unfolding pointers_in_range_def list_all_iff by blast+
      have "0 \<le> get_int (mem s2) (4096 * ?ind + 4 * ii) \<and>
            get_int (mem s2) (4096 * ?ind + 4 * ii) < 256"
        if "ii \<in> set [0 .. min (bytes_to_blocks (inode_size s inum) - 1) 1024 - 1]" for ii
      proof -
        let ?a = "4096 * ?ind + 4 * ii"
        have "0 \<le> ii" using that by simp
        then have "ia + 4 \<le> ?a" using db ia unfolding data_block_def by linarith
        then have a: "get_int (mem s2) ?a = get_int (mem s1) ?a"
          by (simp add: m2 get_put_int_other)
        from aligned_in_or_out [of ?ind ii "fst e" "snd e"]
        consider "?a + 4 \<le> ea \<or> ea + 64 \<le> ?a" | "ea \<le> ?a \<and> ?a + 4 \<le> ea + 64"
          unfolding ea_def entry_addr_def by blast
        then show ?thesis
        proof cases
          case 1
          then have "get_int (mem s1) ?a = get_int (mem s) ?a"
            unfolding s1_def by (simp add: get_int_memset_other)
          then show ?thesis using a tbl that by simp
        next
          case 2
          then have "get_int (mem s1) ?a = 0"
            unfolding s1_def by (simp add: get_int_memset_in)
          then show ?thesis using a by simp
        qed
      qed
      then show ?thesis using db ind sz unfolding data_block_def by simp
    qed
    have "inum < 128" using i85 by simp
    from free_inode_ok [OF i0 this p1 p2] obtain s3
      where s3: "free_inode s2 inum = Some s3"
        and m3: "mem s3 = memset_zero (mem s2) ia 48"
        and i3: "ibm s3 = (ibm s2)(inum := False)" unfolding ia_def by blast
    have un: "storage_unlink s path = Some (s3, 0)" using u rf s3 by simp
    have ent3: "mem s3 (ea + k) = CHR 0x00" if "0 \<le> k" "k < 64" for k
      using that ent2 [of k] by (simp add: m3 memset_zero_def)
    have rec3: "mem s3 (ia + k) = CHR 0x00" if "0 \<le> k" "k < 48" for k
      using that by (simp add: m3 memset_zero_def)
    show ?thesis
      using r un e ei ent3 rec3 i3 rf unfolding rf_def ea_def ia_def by auto
  qed
qed

text \<open>
  C10 as stated fails for a path with a trailing slash: \<open>"/a/"\<close> resolves to the regular
  file \<open>"/a"\<close>, its basename is empty, and \<open>nufs_rmdir\<close> returns \<open>-ENOENT\<close>.
\<close>

theorem nufs_rmdir_trailing_slash_counterexample:
  "tree_lookup a_img ''/a/'' = Some 1 \<and> in_table_block 1 \<and>
   inode_mode a_img 1 AND 16384 = 0 \<and> 1 \<le> inode_refs a_img 1 \<and>
   tree_lookup_parent a_img ''/a/'' = Some 1 \<and> dir_blocks_off_table a_img 1 \<and>
   pointers_in_range a_img 1 \<and>
   map_option snd (nufs_rmdir a_img ''/a/'') = Some (- ENOENT)"
  by code_simp

theorem nufs_rmdir_regular_file_witness:
  "tree_lookup a_img ''/a'' = Some 1 \<and> in_table_block 1 \<and>
   inode_mode a_img 1 AND 16384 = 0 \<and> get_basename ''/a'' \<noteq> [] \<and>
   1 \<le> inode_refs a_img 1 \<and> tree_lookup_parent a_img ''/a'' = Some 0 \<and>
   dir_blocks_off_table a_img 0 \<and> pointers_in_range a_img 1 \<and>
   (\<exists>s' e. nufs_rmdir a_img ''/a'' = Some (s', 0) \<and>
           storage_unlink a_img ''/a'' = Some (s', 0) \<and>
           find_entry a_img 0 (get_basename ''/a'') [0 .. directory_max_entries a_img 0 - 1]
             = Some (Some e) \<and>
           entry_inum a_img e = Some 1 \<and>
           (\<forall>k. 0 \<le> k \<and> k < 64 \<longrightarrow> mem s' (entry_addr e + k) = CHR 0x00) \<and>
           (if 1 < inode_refs a_img 1
            then inode_refs s' 1 = inode_refs a_img 1 - 1 \<and> ibm s' = ibm a_img \<and>
                 bbm s' = bbm a_img
            else \<not> ibm s' 1 \<and>
                 (\<forall>k. 0 \<le> k \<and> k < 48 \<longrightarrow> mem s' (inode_addr 1 + k) = CHR 0x00)))"
proof -
  have h1: "tree_lookup a_img ''/a'' = Some 1" by code_simp
  have h2: "in_table_block 1" by code_simp
  have h3: "inode_mode a_img 1 AND 16384 = 0" by code_simp
  have h4: "get_basename ''/a'' \<noteq> []" by code_simp
  have h5: "1 \<le> inode_refs a_img 1" by code_simp
  have h6: "tree_lookup_parent a_img ''/a'' = Some 0" by code_simp
  have h7: "dir_blocks_off_table a_img 0" by code_simp
  have h8: "pointers_in_range a_img 1" by code_simp
  from nufs_rmdir_regular_file [OF h1 h2 h3 h4 h5 h6 h7 h8]
  show ?thesis using h1 h2 h3 h4 h5 h6 h7 h8 by blast
qed

end
